theory Spec2Isabelle
  imports Main "HOL-Library.Word"
begin

unbundle bit_operations_syntax

section \<open>Decoded documents and the Python operations used on them\<close>

text \<open>
  A specification is a decoded JSON/YAML document. Dictionaries keep insertion order, so they
  are association lists (keys are strings and occur once). A Python \<open>str\<close> is a
  \<open>string\<close> whose characters are the code points 0..255. Floats do not occur.
\<close>

datatype pyval =
    PNone
  | PBool bool
  | PInt int
  | PStr string
  | PList "pyval list"
  | PDict "(string \<times> pyval) list"

datatype py_error =
    TypeError
  | AttributeError
  | KeyError
  | RuntimeError
  | ValueError string

text \<open>Sequencing of code that may raise: the first exception propagates.\<close>

fun bnd :: "py_error + 'a \<Rightarrow> ('a \<Rightarrow> py_error + 'b) \<Rightarrow> py_error + 'b" where
  "bnd (Inl e) f = Inl e"
| "bnd (Inr x) f = f x"

text \<open>\<open>needle in hay\<close> for two strings: the substring test.\<close>

fun prefix_of :: "string \<Rightarrow> string \<Rightarrow> bool" where
  "prefix_of [] ys = True"
| "prefix_of (x # xs) [] = False"
| "prefix_of (x # xs) (y # ys) = (x = y \<and> prefix_of xs ys)"

fun is_substring :: "string \<Rightarrow> string \<Rightarrow> bool" where
  "is_substring n [] = (n = [])"
| "is_substring n (c # cs) = (prefix_of n (c # cs) \<or> is_substring n cs)"

text \<open>
  \<open>k in v\<close> for a string \<open>k\<close>: key membership in a dict, element membership in a list,
  the substring test in a string; \<open>None\<close>, booleans and integers are not iterable.
\<close>

fun py_contains :: "string \<Rightarrow> pyval \<Rightarrow> py_error + bool" where
  "py_contains k (PDict kvs) = Inr (k \<in> set (map fst kvs))"
| "py_contains k (PList xs) = Inr (PStr k \<in> set xs)"
| "py_contains k (PStr s) = Inr (is_substring k s)"
| "py_contains k PNone = Inl TypeError"
| "py_contains k (PBool b) = Inl TypeError"
| "py_contains k (PInt i) = Inl TypeError"

text \<open>\<open>v[k]\<close> for a string \<open>k\<close>: only a dict can be indexed by a string.\<close>

fun py_getitem :: "pyval \<Rightarrow> string \<Rightarrow> py_error + pyval" where
  "py_getitem (PDict kvs) k = (case map_of kvs k of None \<Rightarrow> Inl KeyError | Some v \<Rightarrow> Inr v)"
| "py_getitem v k = Inl TypeError"

text \<open>\<open>v.get(k, d)\<close>, \<open>v.items()\<close>, \<open>v.keys()\<close>, \<open>v.values()\<close>: methods of dicts only.\<close>

fun py_get :: "pyval \<Rightarrow> string \<Rightarrow> pyval \<Rightarrow> py_error + pyval" where
  "py_get (PDict kvs) k d = Inr (case map_of kvs k of None \<Rightarrow> d | Some v \<Rightarrow> v)"
| "py_get v k d = Inl AttributeError"

fun py_items :: "pyval \<Rightarrow> py_error + (string \<times> pyval) list" where
  "py_items (PDict kvs) = Inr kvs"
| "py_items v = Inl AttributeError"

fun py_keys :: "pyval \<Rightarrow> py_error + string list" where
  "py_keys (PDict kvs) = Inr (map fst kvs)"
| "py_keys v = Inl AttributeError"


text \<open>\<open>for x in v\<close>: the elements of a list, the keys of a dict, the characters of a string.\<close>

fun py_iter :: "pyval \<Rightarrow> py_error + pyval list" where
  "py_iter (PList xs) = Inr xs"
| "py_iter (PDict kvs) = Inr (map (\<lambda>kv. PStr (fst kv)) kvs)"
| "py_iter (PStr s) = Inr (map (\<lambda>c. PStr [c]) s)"
| "py_iter v = Inl TypeError"

text \<open>Truth value of an object, as \<open>if v:\<close> and \<open>any(...)\<close> take it.\<close>

fun py_truthy :: "pyval \<Rightarrow> bool" where
  "py_truthy PNone = False"
| "py_truthy (PBool b) = b"
| "py_truthy (PInt i) = (i \<noteq> 0)"
| "py_truthy (PStr s) = (s \<noteq> [])"
| "py_truthy (PList xs) = (xs \<noteq> [])"
| "py_truthy (PDict kvs) = (kvs \<noteq> [])"

text \<open>\<open>v in names\<close> for a list of string literals: equality with one of them.\<close>

definition in_str_list :: "pyval \<Rightarrow> string list \<Rightarrow> bool" where
  "in_str_list v names = (case v of PStr s \<Rightarrow> s \<in> set names | _ \<Rightarrow> False)"

section \<open>The DSL parser: validation\<close>

definition required_sections :: "string list" where
  "required_sections = [''meta'', ''models'']"

definition field_types :: "string list" where
  "field_types = [''string'', ''text'', ''integer'', ''float'', ''boolean'', ''datetime'',
     ''date'', ''uuid'', ''url'', ''email'', ''json'', ''foreign_key'',
     ''many_to_many'', ''choice'']"

definition supported_frameworks :: "string list" where
  "supported_frameworks = [''django'', ''go-fiber'', ''rails'']"

definition supported_providers :: "string list" where
  "supported_providers = [''jwt'', ''oauth2'', ''custom'']"

text \<open>
  The messages \<open>validate\<close> appends. Each constructor is one f-string of the source,
  carrying the values the f-string interpolates.
\<close>

datatype msg =
    MissingSection string
  | MissingMetaField string
  | UnsupportedFramework pyval
  | BadProjectName
  | BadModelName string
  | ModelNoFields string
  | FieldNoType string string
  | InvalidFieldType pyval string string
  | NoPrimaryKey string
  | MultiplePrimaryKeys string
  | AuthNoProvider
  | UnsupportedProvider pyval
  | EndpointNoPath
  | EndpointNoMethod

record validation_result =
  valid :: bool
  errors :: "msg list"
  warnings :: "msg list"

text \<open>
  \<open>re.match(r'^[a-z0-9-_]+$', s)\<close> and \<open>re.match(r'^[A-Z][a-zA-Z0-9]*$', s)\<close>.
  \<open>$\<close> also matches just before a newline that ends the string; \<open>re.match\<close> raises
  TypeError on anything but a string.
\<close>

definition is_lower :: "char \<Rightarrow> bool" where
  "is_lower c = (97 \<le> (of_char c :: nat) \<and> (of_char c :: nat) \<le> 122)"

definition is_upper :: "char \<Rightarrow> bool" where
  "is_upper c = (65 \<le> (of_char c :: nat) \<and> (of_char c :: nat) \<le> 90)"

definition is_digit :: "char \<Rightarrow> bool" where
  "is_digit c = (48 \<le> (of_char c :: nat) \<and> (of_char c :: nat) \<le> 57)"

definition strip_final_newline :: "string \<Rightarrow> string" where
  "strip_final_newline s = (if s \<noteq> [] \<and> last s = CHR 0x0A then butlast s else s)"

definition is_project_char :: "char \<Rightarrow> bool" where
  "is_project_char c = (is_lower c \<or> is_digit c \<or> c = CHR ''-'' \<or> c = CHR ''_'')"

definition match_project_name :: "pyval \<Rightarrow> py_error + bool" where
  "match_project_name v = (case v of
      PStr s \<Rightarrow> (let t = strip_final_newline s in Inr (t \<noteq> [] \<and> list_all is_project_char t))
    | _ \<Rightarrow> Inl TypeError)"

definition is_model_char :: "char \<Rightarrow> bool" where
  "is_model_char c = (is_lower c \<or> is_upper c \<or> is_digit c)"

definition match_model_name :: "string \<Rightarrow> bool" where
  "match_model_name s = (case strip_final_newline s of
      [] \<Rightarrow> False
    | c # cs \<Rightarrow> is_upper c \<and> list_all is_model_char cs)"

text \<open>\<open>_validate_meta\<close>\<close>

fun meta_required :: "string list \<Rightarrow> pyval \<Rightarrow> msg list \<Rightarrow> py_error + msg list" where
  "meta_required [] meta errs = Inr errs"
| "meta_required (f # fs) meta errs =
     bnd (py_contains f meta) (\<lambda>b.
       meta_required fs meta (if b then errs else errs @ [MissingMetaField f]))"

definition validate_meta :: "pyval \<Rightarrow> py_error + msg list" where
  "validate_meta meta =
     bnd (meta_required [''name'', ''version'', ''framework''] meta []) (\<lambda>errs1.
     bnd (py_contains ''framework'' meta) (\<lambda>has_fw.
     bnd (if has_fw then
            bnd (py_getitem meta ''framework'') (\<lambda>fw.
              Inr (if in_str_list fw supported_frameworks then errs1
                   else errs1 @ [UnsupportedFramework fw]))
          else Inr errs1) (\<lambda>errs2.
     bnd (py_contains ''name'' meta) (\<lambda>has_name.
       if has_name then
         bnd (py_getitem meta ''name'') (\<lambda>nm.
         bnd (match_project_name nm) (\<lambda>ok.
           Inr (if ok then errs2 else errs2 @ [BadProjectName])))
       else Inr errs2))))"

text \<open>
  \<open>_validate_models\<close>. The inner loop over the fields of one model carries the error list
  and the primary-key count; a field without a \<open>type\<close> is reported and skipped
  (\<open>continue\<close>), so its \<open>primary_key\<close> flag is not counted.
\<close>

fun validate_fields ::
  "string \<Rightarrow> (string \<times> pyval) list \<Rightarrow> msg list \<Rightarrow> nat \<Rightarrow> py_error + (msg list \<times> nat)" where
  "validate_fields model_name [] errs pk = Inr (errs, pk)"
| "validate_fields model_name ((field_name, field_def) # rest) errs pk =
     bnd (py_contains ''type'' field_def) (\<lambda>has_type.
       if \<not> has_type then
         validate_fields model_name rest (errs @ [FieldNoType field_name model_name]) pk
       else
         bnd (py_getitem field_def ''type'') (\<lambda>ty.
         bnd (py_get field_def ''primary_key'' (PBool False)) (\<lambda>flag.
           validate_fields model_name rest
             (if in_str_list ty field_types then errs
              else errs @ [InvalidFieldType ty field_name model_name])
             (if py_truthy flag then pk + 1 else pk))))"

fun validate_model_list ::
  "(string \<times> pyval) list \<Rightarrow> msg list \<Rightarrow> msg list \<Rightarrow> py_error + (msg list \<times> msg list)" where
  "validate_model_list [] errs warns = Inr (errs, warns)"
| "validate_model_list ((model_name, model_def) # rest) errs warns =
     (let errs1 = (if match_model_name model_name then errs
                   else errs @ [BadModelName model_name]) in
      bnd (py_contains ''fields'' model_def) (\<lambda>has_fields.
        if \<not> has_fields then
          validate_model_list rest (errs1 @ [ModelNoFields model_name]) warns
        else
          bnd (py_getitem model_def ''fields'') (\<lambda>fields.
          bnd (py_items fields) (\<lambda>items.
          bnd (validate_fields model_name items errs1 0) (\<lambda>(errs2, pk).
            if pk = 0 then
              validate_model_list rest errs2 (warns @ [NoPrimaryKey model_name])
            else if pk > 1 then
              validate_model_list rest (errs2 @ [MultiplePrimaryKeys model_name]) warns
            else validate_model_list rest errs2 warns)))))"

definition validate_models :: "pyval \<Rightarrow> py_error + (msg list \<times> msg list)" where
  "validate_models models = bnd (py_items models) (\<lambda>items. validate_model_list items [] [])"

text \<open>\<open>_validate_auth\<close>: \<open>auth.get('provider')\<close> is \<open>None\<close> when the key is absent.\<close>

definition validate_auth :: "pyval \<Rightarrow> py_error + msg list" where
  "validate_auth auth =
     bnd (py_contains ''provider'' auth) (\<lambda>has.
     bnd (py_get auth ''provider'' PNone) (\<lambda>p.
       Inr ((if has then [] else [AuthNoProvider]) @
            (if in_str_list p supported_providers then [] else [UnsupportedProvider p]))))"

text \<open>\<open>_validate_api\<close>\<close>

fun validate_endpoints :: "pyval list \<Rightarrow> msg list \<Rightarrow> py_error + msg list" where
  "validate_endpoints [] errs = Inr errs"
| "validate_endpoints (endpoint # rest) errs =
     bnd (py_contains ''path'' endpoint) (\<lambda>has_path.
     bnd (py_contains ''method'' endpoint) (\<lambda>has_method.
       validate_endpoints rest
         (errs @ (if has_path then [] else [EndpointNoPath])
               @ (if has_method then [] else [EndpointNoMethod]))))"

definition validate_api :: "pyval \<Rightarrow> py_error + msg list" where
  "validate_api api =
     bnd (py_contains ''endpoints'' api) (\<lambda>has.
       if has then
         bnd (py_getitem api ''endpoints'') (\<lambda>eps.
         bnd (py_iter eps) (\<lambda>xs. validate_endpoints xs []))
       else Inr [])"

text \<open>\<open>validate\<close>: every section that is present is checked, in this order.\<close>

fun check_required :: "string list \<Rightarrow> pyval \<Rightarrow> msg list \<Rightarrow> py_error + msg list" where
  "check_required [] spec errs = Inr errs"
| "check_required (s # ss) spec errs =
     bnd (py_contains s spec) (\<lambda>b.
       check_required ss spec (if b then errs else errs @ [MissingSection s]))"

definition section_errors ::
  "string \<Rightarrow> (pyval \<Rightarrow> py_error + msg list) \<Rightarrow> pyval \<Rightarrow> py_error + msg list" where
  "section_errors name check spec =
     bnd (py_contains name spec) (\<lambda>has.
       if has then bnd (py_getitem spec name) check else Inr [])"

definition validate :: "pyval \<Rightarrow> py_error + validation_result" where
  "validate dsl_spec =
     bnd (check_required required_sections dsl_spec []) (\<lambda>errs0.
     bnd (section_errors ''meta'' validate_meta dsl_spec) (\<lambda>meta_errors.
     bnd (py_contains ''models'' dsl_spec) (\<lambda>has_models.
     bnd (if has_models then bnd (py_getitem dsl_spec ''models'') validate_models
          else Inr ([], [])) (\<lambda>(model_errors, model_warnings).
     bnd (section_errors ''auth'' validate_auth dsl_spec) (\<lambda>auth_errors.
     bnd (section_errors ''api'' validate_api dsl_spec) (\<lambda>api_errors.
       (let errs = errs0 @ meta_errors @ model_errors @ auth_errors @ api_errors in
        Inr \<lparr>valid = (length errs = 0), errors = errs, warnings = model_warnings\<rparr>)))))))"

section \<open>Validation rules, stated on the document\<close>

text \<open>
  The messages one field, one model and one endpoint give rise to, written as list
  comprehensions; the loops of \<open>validate\<close> are shown to compute them.
\<close>

definition has_type :: "pyval \<Rightarrow> bool" where
  "has_type fd = (py_contains ''type'' fd = Inr True)"

definition field_msgs :: "string \<Rightarrow> string \<times> pyval \<Rightarrow> msg list" where
  "field_msgs mn p = (case p of (fn, fd) \<Rightarrow>
     if has_type fd then
       (case py_getitem fd ''type'' of
          Inr ty \<Rightarrow> if in_str_list ty field_types then [] else [InvalidFieldType ty fn mn]
        | Inl e \<Rightarrow> [])
     else [FieldNoType fn mn])"

definition counted_pk :: "string \<times> pyval \<Rightarrow> bool" where
  "counted_pk p = (case p of (fn, fd) \<Rightarrow>
     has_type fd \<and> (case py_get fd ''primary_key'' (PBool False) of Inr flag \<Rightarrow> py_truthy flag | Inl e \<Rightarrow> False))"

definition model_msgs :: "string \<times> pyval \<Rightarrow> msg list" where
  "model_msgs p = (case p of (mn, md) \<Rightarrow>
     (if match_model_name mn then [] else [BadModelName mn]) @
     (if py_contains ''fields'' md = Inr True then
        (case py_getitem md ''fields'' of
           Inr (PDict fs) \<Rightarrow> concat (map (field_msgs mn) fs) @
              (if 1 < length (filter counted_pk fs) then [MultiplePrimaryKeys mn] else [])
         | _ \<Rightarrow> [])
      else [ModelNoFields mn]))"

definition model_warns :: "string \<times> pyval \<Rightarrow> msg list" where
  "model_warns p = (case p of (mn, md) \<Rightarrow>
     (if py_contains ''fields'' md = Inr True then
        (case py_getitem md ''fields'' of
           Inr (PDict fs) \<Rightarrow> (if length (filter counted_pk fs) = 0 then [NoPrimaryKey mn] else [])
         | _ \<Rightarrow> [])
      else []))"

definition endpoint_msgs :: "pyval \<Rightarrow> msg list" where
  "endpoint_msgs ep =
     (if py_contains ''path'' ep = Inr True then [] else [EndpointNoPath]) @
     (if py_contains ''method'' ep = Inr True then [] else [EndpointNoMethod])"

text \<open>The shape of a document on which no operation of \<open>validate\<close> raises.\<close>

definition is_dict :: "pyval \<Rightarrow> bool" where
  "is_dict v = (case v of PDict kvs \<Rightarrow> True | _ \<Rightarrow> False)"









text \<open>
  The rules of the validator as the specification words them: \<open>violates is_pk spec m\<close> says
  that \<open>spec\<close> breaks the rule whose message is \<open>m\<close>. The rule on primary keys takes the test
  for "this field is a primary key" as a parameter: the specification counts the fields
  flagged \<open>primary_key\<close> (\<open>declares_primary_key\<close>), the code counts those among them that
  also declare a \<open>type\<close> (\<open>counted_pk\<close>).
\<close>

definition declares_primary_key :: "string \<times> pyval \<Rightarrow> bool" where
  "declares_primary_key p = (case py_get (snd p) ''primary_key'' (PBool False) of
      Inr flag \<Rightarrow> py_truthy flag | Inl e \<Rightarrow> False)"

inductive violates :: "(string \<times> pyval \<Rightarrow> bool) \<Rightarrow> pyval \<Rightarrow> msg \<Rightarrow> bool"
  for is_pk :: "string \<times> pyval \<Rightarrow> bool" and spec :: pyval where
  v_section: "s \<in> set required_sections \<Longrightarrow> py_contains s spec = Inr False \<Longrightarrow>
      violates is_pk spec (MissingSection s)"
| v_meta_field: "py_getitem spec ''meta'' = Inr meta \<Longrightarrow>
      f \<in> set [''name'', ''version'', ''framework''] \<Longrightarrow> py_contains f meta = Inr False \<Longrightarrow>
      violates is_pk spec (MissingMetaField f)"
| v_framework: "py_getitem spec ''meta'' = Inr meta \<Longrightarrow> py_getitem meta ''framework'' = Inr fw \<Longrightarrow>
      \<not> in_str_list fw supported_frameworks \<Longrightarrow>
      violates is_pk spec (UnsupportedFramework fw)"
| v_name: "py_getitem spec ''meta'' = Inr meta \<Longrightarrow> py_getitem meta ''name'' = Inr nm \<Longrightarrow>
      match_project_name nm = Inr False \<Longrightarrow>
      violates is_pk spec BadProjectName"
| v_model_name: "py_getitem spec ''models'' = Inr (PDict ms) \<Longrightarrow> (mn, md) \<in> set ms \<Longrightarrow>
      \<not> match_model_name mn \<Longrightarrow>
      violates is_pk spec (BadModelName mn)"
| v_no_fields: "py_getitem spec ''models'' = Inr (PDict ms) \<Longrightarrow> (mn, md) \<in> set ms \<Longrightarrow>
      py_contains ''fields'' md = Inr False \<Longrightarrow>
      violates is_pk spec (ModelNoFields mn)"
| v_no_type: "py_getitem spec ''models'' = Inr (PDict ms) \<Longrightarrow> (mn, md) \<in> set ms \<Longrightarrow>
      py_getitem md ''fields'' = Inr (PDict fs) \<Longrightarrow> (fn, fd) \<in> set fs \<Longrightarrow>
      py_contains ''type'' fd = Inr False \<Longrightarrow>
      violates is_pk spec (FieldNoType fn mn)"
| v_bad_type: "py_getitem spec ''models'' = Inr (PDict ms) \<Longrightarrow> (mn, md) \<in> set ms \<Longrightarrow>
      py_getitem md ''fields'' = Inr (PDict fs) \<Longrightarrow> (fn, fd) \<in> set fs \<Longrightarrow>
      py_getitem fd ''type'' = Inr ty \<Longrightarrow> \<not> in_str_list ty field_types \<Longrightarrow>
      violates is_pk spec (InvalidFieldType ty fn mn)"
| v_multi_pk: "py_getitem spec ''models'' = Inr (PDict ms) \<Longrightarrow> (mn, md) \<in> set ms \<Longrightarrow>
      py_getitem md ''fields'' = Inr (PDict fs) \<Longrightarrow> 1 < length (filter is_pk fs) \<Longrightarrow>
      violates is_pk spec (MultiplePrimaryKeys mn)"
| v_provider: "py_getitem spec ''auth'' = Inr auth \<Longrightarrow> py_getitem auth ''provider'' = Inr p \<Longrightarrow>
      \<not> in_str_list p supported_providers \<Longrightarrow>
      violates is_pk spec (UnsupportedProvider p)"
| v_path: "py_getitem spec ''api'' = Inr api \<Longrightarrow> py_getitem api ''endpoints'' = Inr eps \<Longrightarrow>
      py_iter eps = Inr xs \<Longrightarrow> ep \<in> set xs \<Longrightarrow> py_contains ''path'' ep = Inr False \<Longrightarrow>
      violates is_pk spec EndpointNoPath"
| v_method: "py_getitem spec ''api'' = Inr api \<Longrightarrow> py_getitem api ''endpoints'' = Inr eps \<Longrightarrow>
      py_iter eps = Inr xs \<Longrightarrow> ep \<in> set xs \<Longrightarrow> py_contains ''method'' ep = Inr False \<Longrightarrow>
      violates is_pk spec EndpointNoMethod"

section \<open>The DSL parser: normalization\<close>

text \<open>
  \<open>d[k] = v\<close> on a dict: an existing key keeps its position and gets the new value, a new
  key goes to the end. Nothing else can be assigned at a string key.
\<close>

fun dict_set :: "(string \<times> 'v) list \<Rightarrow> string \<Rightarrow> 'v \<Rightarrow> (string \<times> 'v) list" where
  "dict_set [] k v = [(k, v)]"
| "dict_set ((k', v') # rest) k v =
     (if k' = k then (k, v) # rest else (k', v') # dict_set rest k v)"









section \<open>Normalization on the store\<close>

text \<open>
  \<open>dsl_spec.copy()\<close> is a shallow copy: the new dict holds the same nested objects as the
  caller's. To see what the caller's document is after the call, dicts and lists are objects
  in a store and values refer to them by address. A store is the list of its objects, an
  address is an index, allocation appends. An address outside the store is not an object
  (no Python value refers to one); the operations answer TypeError there.
\<close>

type_synonym addr = nat

datatype hval = HNone | HBool bool | HInt int | HStr string | HRef addr

datatype hobj = HDict "(string \<times> hval) list" | HList "hval list"

type_synonym heap = "hobj list"

definition obj_at :: "heap \<Rightarrow> addr \<Rightarrow> hobj option" where
  "obj_at h a = (if a < length h then Some (h ! a) else None)"

definition alloc :: "heap \<Rightarrow> hobj \<Rightarrow> heap \<times> hval" where
  "alloc h obj = (h @ [obj], HRef (length h))"

fun h_truthy :: "heap \<Rightarrow> hval \<Rightarrow> bool" where
  "h_truthy h HNone = False"
| "h_truthy h (HBool b) = b"
| "h_truthy h (HInt i) = (i \<noteq> 0)"
| "h_truthy h (HStr s) = (s \<noteq> [])"
| "h_truthy h (HRef a) = (case obj_at h a of
      Some (HDict kvs) \<Rightarrow> kvs \<noteq> [] | Some (HList xs) \<Rightarrow> xs \<noteq> [] | None \<Rightarrow> False)"

fun h_contains :: "heap \<Rightarrow> string \<Rightarrow> hval \<Rightarrow> py_error + bool" where
  "h_contains h k (HStr s) = Inr (is_substring k s)"
| "h_contains h k (HRef a) = (case obj_at h a of
      Some (HDict kvs) \<Rightarrow> Inr (k \<in> set (map fst kvs))
    | Some (HList xs) \<Rightarrow> Inr (HStr k \<in> set xs)
    | None \<Rightarrow> Inl TypeError)"
| "h_contains h k v = Inl TypeError"

fun h_getitem :: "heap \<Rightarrow> hval \<Rightarrow> string \<Rightarrow> py_error + hval" where
  "h_getitem h (HRef a) k = (case obj_at h a of
      Some (HDict kvs) \<Rightarrow> (case map_of kvs k of None \<Rightarrow> Inl KeyError | Some v \<Rightarrow> Inr v)
    | _ \<Rightarrow> Inl TypeError)"
| "h_getitem h v k = Inl TypeError"

fun h_get :: "heap \<Rightarrow> hval \<Rightarrow> string \<Rightarrow> hval \<Rightarrow> py_error + hval" where
  "h_get h (HRef a) k d = (case obj_at h a of
      Some (HDict kvs) \<Rightarrow> Inr (case map_of kvs k of None \<Rightarrow> d | Some v \<Rightarrow> v)
    | _ \<Rightarrow> Inl AttributeError)"
| "h_get h v k d = Inl AttributeError"

fun h_values :: "heap \<Rightarrow> hval \<Rightarrow> py_error + hval list" where
  "h_values h (HRef a) = (case obj_at h a of
      Some (HDict kvs) \<Rightarrow> Inr (map snd kvs)
    | _ \<Rightarrow> Inl AttributeError)"
| "h_values h v = Inl AttributeError"

fun h_setitem :: "heap \<Rightarrow> hval \<Rightarrow> string \<Rightarrow> hval \<Rightarrow> py_error + heap" where
  "h_setitem h (HRef a) k x = (case obj_at h a of
      Some (HDict kvs) \<Rightarrow> Inr (h[a := HDict (dict_set kvs k x)])
    | _ \<Rightarrow> Inl TypeError)"
| "h_setitem h v k x = Inl TypeError"

text \<open>\<open>v.copy()\<close>: a new object with the same entries; only dicts and lists have the method.\<close>

fun h_copy :: "heap \<Rightarrow> hval \<Rightarrow> py_error + (heap \<times> hval)" where
  "h_copy h (HRef a) = (case obj_at h a of
      Some obj \<Rightarrow> Inr (alloc h obj)
    | None \<Rightarrow> Inl AttributeError)"
| "h_copy h v = Inl AttributeError"

fun h_any_primary_key :: "heap \<Rightarrow> hval list \<Rightarrow> py_error + bool" where
  "h_any_primary_key h [] = Inr False"
| "h_any_primary_key h (field # rest) =
     bnd (h_get h field ''primary_key'' (HBool False)) (\<lambda>flag.
       if h_truthy h flag then Inr True else h_any_primary_key h rest)"

text \<open>
  The body of the loop over the models. The store it returns is the store after the step,
  also when the step raises.
\<close>

definition h_normalize_model :: "heap \<Rightarrow> hval \<Rightarrow> (py_error + unit) \<times> heap" where
  "h_normalize_model h model_def =
     (case h_contains h ''fields'' model_def of
        Inl e \<Rightarrow> (Inl e, h)
      | Inr False \<Rightarrow> (Inr (), h)
      | Inr True \<Rightarrow>
     (case h_getitem h model_def ''fields'' of
        Inl e \<Rightarrow> (Inl e, h)
      | Inr flds \<Rightarrow>
     (case bnd (h_values h flds) (h_any_primary_key h) of
        Inl e \<Rightarrow> (Inl e, h)
      | Inr True \<Rightarrow> (Inr (), h)
      | Inr False \<Rightarrow>
     (case h_contains h ''id'' flds of
        Inl e \<Rightarrow> (Inl e, h)
      | Inr True \<Rightarrow> (Inr (), h)
      | Inr False \<Rightarrow>
     (case alloc h (HDict [(''type'', HStr ''uuid''), (''primary_key'', HBool True),
                           (''auto_generated'', HBool True)]) of
        (h1, new_id) \<Rightarrow>
     (case h_setitem h1 flds ''id'' new_id of
        Inl e \<Rightarrow> (Inl e, h1)
      | Inr h2 \<Rightarrow> (Inr (), h2)))))))"

text \<open>
  \<open>for model_name, model_def in models.items()\<close> over the dict at address \<open>m\<close>, at entry
  \<open>i\<close>. The iterator compares the size of the dict with the size \<open>n\<close> it had when the loop
  started, at every step, and raises RuntimeError when they differ.
\<close>

function h_models_loop :: "heap \<Rightarrow> addr \<Rightarrow> nat \<Rightarrow> nat \<Rightarrow> (py_error + unit) \<times> heap" where
  "h_models_loop h m n i =
     (case obj_at h m of
        Some (HDict kvs) \<Rightarrow>
          if length kvs \<noteq> n then (Inl RuntimeError, h)
          else if n \<le> i then (Inr (), h)
          else (case h_normalize_model h (snd (kvs ! i)) of
                  (Inl e, h') \<Rightarrow> (Inl e, h')
                | (Inr u, h') \<Rightarrow> h_models_loop h' m n (Suc i))
      | _ \<Rightarrow> (Inl TypeError, h))"
  by pat_completeness auto
termination
  by (relation "measure (\<lambda>(h, m, n, i). n - i)") auto

definition h_normalize_spec :: "heap \<Rightarrow> hval \<Rightarrow> (py_error + hval) \<times> heap" where
  "h_normalize_spec h dsl_spec =
     (case h_copy h dsl_spec of
        Inl e \<Rightarrow> (Inl e, h)
      | Inr (h1, normalized) \<Rightarrow>
     (case h_contains h1 ''meta'' normalized of
        Inl e \<Rightarrow> (Inl e, h1)
      | Inr has_meta \<Rightarrow>
     (case (if has_meta then (Inr (), h1)
            else (case alloc h1 (HDict []) of (h2, new_meta) \<Rightarrow>
                   (case h_setitem h2 normalized ''meta'' new_meta of
                      Inl e \<Rightarrow> (Inl e, h2)
                    | Inr h3 \<Rightarrow> (Inr (), h3)))) of
        (Inl e, h4) \<Rightarrow> (Inl e, h4)
      | (Inr u, h4) \<Rightarrow>
     (case alloc h4 (HDict []) of (h5, dflt) \<Rightarrow>
     (case h_get h5 normalized ''models'' dflt of
        Inl e \<Rightarrow> (Inl e, h5)
      | Inr (HRef m) \<Rightarrow>
          (case obj_at h5 m of
             Some (HDict kvs) \<Rightarrow>
               (case h_models_loop h5 m (length kvs) 0 of
                  (Inl e, h6) \<Rightarrow> (Inl e, h6)
                | (Inr u, h6) \<Rightarrow> (Inr normalized, h6))
           | _ \<Rightarrow> (Inl AttributeError, h5))
      | Inr _ \<Rightarrow> (Inl AttributeError, h5))))))"

text \<open>The document a value stands for in a store, read to the given depth.\<close>

fun deref :: "nat \<Rightarrow> heap \<Rightarrow> hval \<Rightarrow> pyval option" where
  "deref n h HNone = Some PNone"
| "deref n h (HBool b) = Some (PBool b)"
| "deref n h (HInt i) = Some (PInt i)"
| "deref n h (HStr s) = Some (PStr s)"
| "deref 0 h (HRef a) = None"
| "deref (Suc n) h (HRef a) = (case obj_at h a of
      None \<Rightarrow> None
    | Some (HList xs) \<Rightarrow> map_option PList (those (map (deref n h) xs))
    | Some (HDict kvs) \<Rightarrow>
        map_option PDict (those (map (\<lambda>kv. map_option (Pair (fst kv)) (deref n h (snd kv))) kvs)))"

section \<open>Text of values\<close>

text \<open>Decimal digits of an integer, as \<open>str\<close> and \<open>json.dumps\<close> print it.\<close>

definition digit_char :: "nat \<Rightarrow> char" where
  "digit_char d = char_of (48 + d)"

fun dec_nat :: "nat \<Rightarrow> string" where
  "dec_nat n = (if n < 10 then [digit_char n] else dec_nat (n div 10) @ [digit_char (n mod 10)])"

definition py_int_str :: "int \<Rightarrow> string" where
  "py_int_str i = (if i < 0 then CHR ''-'' # dec_nat (nat (- i)) else dec_nat (nat i))"

definition hex_char :: "nat \<Rightarrow> char" where
  "hex_char d = (if d < 10 then char_of (48 + d) else char_of (87 + d))"

text \<open>\<open>sep.join(parts)\<close>\<close>

fun join :: "string \<Rightarrow> string list \<Rightarrow> string" where
  "join sep [] = []"
| "join sep [x] = x"
| "join sep (x # y # rest) = x @ sep @ join sep (y # rest)"

text \<open>
  \<open>json.dumps\<close> with its defaults: \<open>ensure_ascii\<close>, separators \<open>', '\<close> and \<open>': '\<close>.
  In a string, the quote and the backslash are escaped, the control characters
  \<open>\n \r \t \b \f\<close> have their short escapes, and every other character outside
  \<open>' '..'~'\<close> is written \<open>\u00XX\<close>.
\<close>

definition json_escape_char :: "char \<Rightarrow> string" where
  "json_escape_char c =
     (if c = CHR 0x22 then [CHR 0x5C, CHR 0x22]
      else if c = CHR 0x5C then [CHR 0x5C, CHR 0x5C]
      else if c = CHR 0x0A then [CHR 0x5C, CHR ''n'']
      else if c = CHR 0x0D then [CHR 0x5C, CHR ''r'']
      else if c = CHR 0x09 then [CHR 0x5C, CHR ''t'']
      else if c = CHR 0x08 then [CHR 0x5C, CHR ''b'']
      else if c = CHR 0x0C then [CHR 0x5C, CHR ''f'']
      else if 32 \<le> (of_char c :: nat) \<and> (of_char c :: nat) \<le> 126 then [c]
      else [CHR 0x5C, CHR ''u'', CHR ''0'', CHR ''0'',
            hex_char ((of_char c :: nat) div 16), hex_char ((of_char c :: nat) mod 16)])"

definition json_string :: "string \<Rightarrow> string" where
  "json_string s = [CHR 0x22] @ concat (map json_escape_char s) @ [CHR 0x22]"

fun json_dumps :: "pyval \<Rightarrow> string" where
  "json_dumps PNone = ''null''"
| "json_dumps (PBool b) = (if b then ''true'' else ''false'')"
| "json_dumps (PInt i) = py_int_str i"
| "json_dumps (PStr s) = json_string s"
| "json_dumps (PList xs) = ''['' @ join '', '' (map json_dumps xs) @ '']''"
| "json_dumps (PDict kvs) =
     ''{'' @ join '', '' (map (\<lambda>kv. json_string (fst kv) @ '': '' @ json_dumps (snd kv)) kvs) @ ''}''"

section \<open>Regular expressions of the security gate\<close>

text \<open>
  The patterns of the gate use literals, character classes, alternation, and \<open>*\<close> on a
  single character class only. \<open>Cls True cs\<close> is a character of \<open>cs\<close>, \<open>Cls False cs\<close> a
  character not in \<open>cs\<close>. \<open>rests r s\<close> lists what is left of \<open>s\<close> after each way of matching
  \<open>r\<close> at its start; \<open>re_search r s\<close> is \<open>re.search\<close>: a match starting somewhere in \<open>s\<close>.
\<close>

datatype rx =
    Eps
  | Cls bool "char list"
  | StarCls bool "char list"
  | Seq rx rx
  | Alt rx rx

fun star_rests :: "bool \<Rightarrow> char list \<Rightarrow> string \<Rightarrow> string list" where
  "star_rests pos cs [] = [[]]"
| "star_rests pos cs (c # s) =
     (c # s) # (if (c \<in> set cs) = pos then star_rests pos cs s else [])"

fun rests :: "rx \<Rightarrow> string \<Rightarrow> string list" where
  "rests Eps s = [s]"
| "rests (Cls pos cs) [] = []"
| "rests (Cls pos cs) (c # s) = (if (c \<in> set cs) = pos then [s] else [])"
| "rests (StarCls pos cs) s = star_rests pos cs s"
| "rests (Seq a b) s = concat (map (rests b) (rests a s))"
| "rests (Alt a b) s = rests a s @ rests b s"

fun re_search :: "rx \<Rightarrow> string \<Rightarrow> bool" where
  "re_search r [] = (rests r [] \<noteq> [])"
| "re_search r (c # s) = (rests r (c # s) \<noteq> [] \<or> re_search r s)"

text \<open>
  With \<open>re.IGNORECASE\<close> a letter of the pattern matches both of its cases; the other
  characters of the patterns have no case.
\<close>

definition both_cases :: "char \<Rightarrow> char list" where
  "both_cases c =
     (if is_lower c then [c, char_of ((of_char c :: nat) - 32)]
      else if is_upper c then [c, char_of ((of_char c :: nat) + 32)]
      else [c])"

fun lit :: "string \<Rightarrow> rx" where
  "lit [] = Eps"
| "lit (c # s) = Seq (Cls True (both_cases c)) (lit s)"

fun alts :: "rx list \<Rightarrow> rx" where
  "alts [] = Cls True []"
| "alts [r] = r"
| "alts (r # rs) = Alt r (alts rs)"

text \<open>
  \<open>\s\<close> on a \<open>str\<close>: the ASCII whitespace and the other characters with \<open>isspace()\<close>,
  which below 256 are 0x1C..0x1F, 0x85 and 0xA0. \<open>.\<close> is any character but the newline.
\<close>

definition whitespace :: "char list" where
  "whitespace = [CHR 0x20, CHR 0x09, CHR 0x0A, CHR 0x0B, CHR 0x0C, CHR 0x0D,
                 CHR 0x1C, CHR 0x1D, CHR 0x1E, CHR 0x1F, CHR 0x85, CHR 0xA0]"

definition call_of :: "string \<Rightarrow> rx" where
  "call_of name = Seq (lit name) (Seq (StarCls True whitespace) (lit ''(''))"

definition quote_class :: rx where
  "quote_class = Cls True [CHR 0x27, CHR 0x22]"

definition dangerous_patterns :: "rx list" where
  "dangerous_patterns = [
     alts [call_of ''exec'', call_of ''eval'', call_of ''system''],
     alts [lit ''__import__'', lit ''importlib'', lit ''subprocess''],
     alts [lit ''os.system'', lit ''os.popen'', lit ''os.spawn''],
     Seq (call_of ''open'')
       (Seq (StarCls False [CHR 0x0A])
       (Seq (lit '','')
       (Seq (StarCls True whitespace)
       (Seq quote_class (Seq (lit ''w'') (Seq quote_class (lit '')''))))))),
     alts [lit ''<script>'', lit ''<iframe>'', lit ''javascript:'']]"

definition sql_injection_pattern :: rx where
  "sql_injection_pattern =
     alts [lit ''--'', lit '';'', lit ''/*'', lit ''*/'', lit ''@@'', lit ''@'', call_of ''char'']"

section \<open>The security gate\<close>

text \<open>
  \<open>perform_security_checks\<close>, as the value it returns. The first dangerous pattern found in
  the serialized document, or the first field name with an SQL pattern, ends the scan with
  \<open>False\<close>. (On \<open>True\<close> the generator also sets its flag \<open>security_checks_passed\<close>; see the
  generator below.)
\<close>

fun scan_models :: "(string \<times> pyval) list \<Rightarrow> py_error + bool" where
  "scan_models [] = Inr True"
| "scan_models ((model_name, model_def) # rest) =
     bnd (py_contains ''fields'' model_def) (\<lambda>has_fields.
       if has_fields then
         bnd (py_getitem model_def ''fields'') (\<lambda>fields.
         bnd (py_keys fields) (\<lambda>names.
           if list_ex (re_search sql_injection_pattern) names then Inr False
           else scan_models rest))
       else scan_models rest)"

definition perform_security_checks :: "pyval \<Rightarrow> py_error + bool" where
  "perform_security_checks dsl_spec =
     (let dsl_str = json_dumps dsl_spec in
      if list_ex (\<lambda>pattern. re_search pattern dsl_str) dangerous_patterns then Inr False
      else
        bnd (py_contains ''models'' dsl_spec) (\<lambda>has_models.
          if has_models then
            bnd (py_getitem dsl_spec ''models'') (\<lambda>models.
            bnd (py_items models) scan_models)
          else Inr True))"






section \<open>\<open>str\<close>, \<open>repr\<close> and the string methods the generators use\<close>

text \<open>\<open>s.lower()\<close> on the characters below 256: the ASCII and the Latin-1 capital letters.\<close>

definition py_lower_char :: "char \<Rightarrow> char" where
  "py_lower_char c =
     (let n = (of_char c :: nat) in
      if 65 \<le> n \<and> n \<le> 90 then char_of (n + 32)
      else if 192 \<le> n \<and> n \<le> 222 \<and> n \<noteq> 215 then char_of (n + 32)
      else c)"

definition py_lower :: "string \<Rightarrow> string" where
  "py_lower s = map py_lower_char s"

text \<open>
  \<open>_to_snake_case\<close>: \<open>re.sub(r'(?<!^)(?=[A-Z])', '_', s).lower()\<close> puts an underscore
  before every capital ASCII letter that is not the first character.
\<close>

fun underscore_capitals :: "string \<Rightarrow> string" where
  "underscore_capitals [] = []"
| "underscore_capitals (c # cs) =
     (if is_upper c then CHR ''_'' # c # underscore_capitals cs else c # underscore_capitals cs)"

definition to_snake_case :: "string \<Rightarrow> string" where
  "to_snake_case camel_str =
     py_lower (case camel_str of [] \<Rightarrow> [] | c # cs \<Rightarrow> c # underscore_capitals cs)"

text \<open>
  \<open>repr\<close> of a string: single quotes, unless the string has a single quote and no double
  quote; the quote and the backslash are escaped, \<open>\t \n \r\<close> have their short escapes, and
  the characters that are not printable (below 0x20, 0x7F..0xA0, 0xAD) are written \<open>\xNN\<close>.
\<close>

definition repr_quote :: "string \<Rightarrow> char" where
  "repr_quote s = (if CHR 0x27 \<in> set s \<and> CHR 0x22 \<notin> set s then CHR 0x22 else CHR 0x27)"

definition repr_char :: "char \<Rightarrow> char \<Rightarrow> string" where
  "repr_char q c =
     (let n = (of_char c :: nat) in
      if c = q \<or> c = CHR 0x5C then [CHR 0x5C, c]
      else if c = CHR 0x09 then [CHR 0x5C, CHR ''t'']
      else if c = CHR 0x0A then [CHR 0x5C, CHR ''n'']
      else if c = CHR 0x0D then [CHR 0x5C, CHR ''r'']
      else if n < 32 \<or> (127 \<le> n \<and> n \<le> 160) \<or> n = 173
        then [CHR 0x5C, CHR ''x'', hex_char (n div 16), hex_char (n mod 16)]
      else [c])"

definition repr_string :: "string \<Rightarrow> string" where
  "repr_string s = (let q = repr_quote s in [q] @ concat (map (repr_char q) s) @ [q])"

definition py_bool_str :: "bool \<Rightarrow> string" where
  "py_bool_str b = (if b then ''True'' else ''False'')"

fun py_repr :: "pyval \<Rightarrow> string" where
  "py_repr PNone = ''None''"
| "py_repr (PBool b) = py_bool_str b"
| "py_repr (PInt i) = py_int_str i"
| "py_repr (PStr s) = repr_string s"
| "py_repr (PList xs) = ''['' @ join '', '' (map py_repr xs) @ '']''"
| "py_repr (PDict kvs) =
     ''{'' @ join '', '' (map (\<lambda>kv. repr_string (fst kv) @ '': '' @ py_repr (snd kv)) kvs) @ ''}''"

text \<open>\<open>str(v)\<close>, which is what an f-string puts for \<open>{v}\<close>.\<close>

definition py_str :: "pyval \<Rightarrow> string" where
  "py_str v = (case v of PStr s \<Rightarrow> s | _ \<Rightarrow> py_repr v)"

text \<open>
  \<open>json.dumps(v, indent=2)\<close>: one entry per line, indented by two spaces per level; an empty
  list or dict stays on one line.
\<close>

fun json_dumps_indent :: "nat \<Rightarrow> pyval \<Rightarrow> string" where
  "json_dumps_indent level PNone = ''null''"
| "json_dumps_indent level (PBool b) = (if b then ''true'' else ''false'')"
| "json_dumps_indent level (PInt i) = py_int_str i"
| "json_dumps_indent level (PStr s) = json_string s"
| "json_dumps_indent level (PList xs) =
     (if xs = [] then ''[]''
      else ''['' @ [CHR 0x0A] @ replicate (2 * (level + 1)) CHR '' '' @
           join ('','' @ [CHR 0x0A] @ replicate (2 * (level + 1)) CHR '' '')
             (map (json_dumps_indent (level + 1)) xs) @
           [CHR 0x0A] @ replicate (2 * level) CHR '' '' @ '']'')"
| "json_dumps_indent level (PDict kvs) =
     (if kvs = [] then ''{}''
      else ''{'' @ [CHR 0x0A] @ replicate (2 * (level + 1)) CHR '' '' @
           join ('','' @ [CHR 0x0A] @ replicate (2 * (level + 1)) CHR '' '')
             (map (\<lambda>kv. json_string (fst kv) @ '': '' @ json_dumps_indent (level + 1) (snd kv)) kvs) @
           [CHR 0x0A] @ replicate (2 * level) CHR '' '' @ ''}'')"

section \<open>Content hashes\<close>

text \<open>\<open>content.encode('utf-8')\<close> for characters below 256: one byte, or two from 0x80 on.\<close>

definition utf8_char :: "char \<Rightarrow> 8 word list" where
  "utf8_char c =
     (let n = (of_char c :: nat) in
      if n < 128 then [of_nat n]
      else [of_nat (192 + n div 64), of_nat (128 + n mod 64)])"

definition utf8_encode :: "string \<Rightarrow> 8 word list" where
  "utf8_encode s = concat (map utf8_char s)"

text \<open>
  \<open>compute_hash\<close>: \<open>hashlib.sha256(content.encode('utf-8')).hexdigest()\<close>. \<open>hashlib\<close> is the
  standard library, not code of the repository: its SHA-256, from the bytes to the hex
  digest, is the parameter \<open>sha256_hexdigest\<close> of everything that hashes.
\<close>

definition compute_hash :: "(8 word list \<Rightarrow> string) \<Rightarrow> string \<Rightarrow> string" where
  "compute_hash sha256_hexdigest content = sha256_hexdigest (utf8_encode content)"

section \<open>The Django generator: the emitted files\<close>

text \<open>
  Each \<open>_generate_*\<close> method assembles one file from fixed text and values of the document.
  \<open>dsl_spec.get('meta', {}).get(key, default)\<close> is \<open>meta_get\<close>; it raises AttributeError
  when the document or its \<open>meta\<close> section is not a dict. Log output is not modelled.
\<close>

definition meta_get :: "pyval \<Rightarrow> string \<Rightarrow> pyval \<Rightarrow> py_error + pyval" where
  "meta_get dsl_spec key dflt =
     bnd (py_get dsl_spec ''meta'' (PDict [])) (\<lambda>meta. py_get meta key dflt)"

definition generate_manage_py :: "pyval \<Rightarrow> py_error + string" where
  \<open>generate_manage_py dsl_spec =
     bnd (meta_get dsl_spec ''name'' (PStr ''project'')) (\<lambda>project_name.
     Inr (concat [''#!/usr/bin/env python\<newline>'',
       ''"""Django's command-line utility for administrative tasks."""\<newline>'',
       ''import os\<newline>'',
       ''import sys\<newline>'',
       ''\<newline>'',
       ''\<newline>'',
       ''def main():\<newline>'',
       ''    """Run administrative tasks."""\<newline>'',
       ''    os.environ.setdefault('DJANGO_SETTINGS_MODULE', 'project.settings')\<newline>'',
       ''    try:\<newline>'',
       ''        from django.core.management import execute_from_command_line\<newline>'',
       ''    except ImportError as exc:\<newline>'',
       ''        raise ImportError(\<newline>'',
       ''            "Couldn't import Django. Are you sure it's installed and "\<newline>'',
       ''            "available on your PYTHONPATH environment variable? Did you "\<newline>'',
       ''            "forget to activate a virtual environment?"\<newline>'',
       ''        ) from exc\<newline>'',
       ''    execute_from_command_line(sys.argv)\<newline>'',
       ''\<newline>'',
       ''\<newline>'',
       ''if __name__ == '__main__':\<newline>'',
       ''    main()\<newline>'']))\<close>

text \<open>
  \<open>_generate_models_complete\<close>. The line of one field depends on its \<open>type\<close>,
  \<open>required\<close> and \<open>max_length\<close> only; the class of a model starts with the fixed \<open>id\<close>
  column and ends with the two timestamps.
\<close>

definition model_field_line :: "string \<Rightarrow> pyval \<Rightarrow> py_error + string" where
  \<open>model_field_line field_name field_config =
     bnd (py_get field_config ''type'' (PStr ''string'')) (\<lambda>field_type.
     bnd (py_get field_config ''required'' (PBool False)) (\<lambda>required.
       if in_str_list field_type [''string'', ''text''] then
         bnd (py_get field_config ''max_length'' (PInt 255)) (\<lambda>max_length.
         Inr (concat [''    '',
       field_name,
       '' = models.CharField(max_length='',
       py_str max_length,
       '', blank='',
       py_bool_str (\<not> py_truthy required),
       '')\<newline>'']))
       else if field_type = PStr ''integer'' then
         Inr (concat [''    '',
       field_name,
       '' = models.IntegerField(null='',
       py_bool_str (\<not> py_truthy required),
       '', blank='',
       py_bool_str (\<not> py_truthy required),
       '')\<newline>''])
       else if field_type = PStr ''decimal'' then
         Inr (concat [''    '',
       field_name,
       '' = models.DecimalField(max_digits=10, decimal_places=2, null='',
       py_bool_str (\<not> py_truthy required),
       '', blank='',
       py_bool_str (\<not> py_truthy required),
       '')\<newline>''])
       else if field_type = PStr ''boolean'' then
         Inr (concat [''    '',
       field_name,
       '' = models.BooleanField(default=False)\<newline>''])
       else if field_type = PStr ''date'' then
         Inr (concat [''    '',
       field_name,
       '' = models.DateField(null='',
       py_bool_str (\<not> py_truthy required),
       '', blank='',
       py_bool_str (\<not> py_truthy required),
       '')\<newline>''])
       else if field_type = PStr ''datetime'' then
         Inr (concat [''    '',
       field_name,
       '' = models.DateTimeField(null='',
       py_bool_str (\<not> py_truthy required),
       '', blank='',
       py_bool_str (\<not> py_truthy required),
       '')\<newline>''])
       else if field_type = PStr ''email'' then
         Inr (concat [''    '',
       field_name,
       '' = models.EmailField(blank='',
       py_bool_str (\<not> py_truthy required),
       '')\<newline>''])
       else if field_type = PStr ''url'' then
         Inr (concat [''    '',
       field_name,
       '' = models.URLField(blank='',
       py_bool_str (\<not> py_truthy required),
       '')\<newline>''])
       else
         Inr (concat [''    '',
       field_name,
       '' = models.CharField(max_length=255, blank='',
       py_bool_str (\<not> py_truthy required),
       '')\<newline>''])))\<close>

fun model_field_lines :: "(string \<times> pyval) list \<Rightarrow> py_error + string" where
  "model_field_lines [] = Inr []"
| "model_field_lines ((field_name, field_config) # rest) =
     bnd (model_field_line field_name field_config) (\<lambda>line.
     bnd (model_field_lines rest) (\<lambda>more. Inr (line @ more)))"

definition model_id_line :: string where
  \<open>model_id_line = ''    id = models.UUIDField(primary_key=True, default=uuid.uuid4, editable=False)\<newline>''\<close>

definition model_class_head :: "string \<Rightarrow> pyval \<Rightarrow> string" where
  \<open>model_class_head model_name description =
     concat [concat [''class '',
       model_name,
       ''(models.Model):\<newline>''],
       concat [''    """'',
       py_str description,
       ''"""\<newline>'']]\<close>

definition model_class_tail :: "string \<Rightarrow> string \<Rightarrow> string" where
  \<open>model_class_tail model_name first_field =
     concat [''    created_at = models.DateTimeField(auto_now_add=True)\<newline>'',
       ''    updated_at = models.DateTimeField(auto_now=True)\<newline>'',
       ''\<newline>'',
       ''    class Meta:\<newline>'',
       concat [''        db_table = "'',
       to_snake_case model_name,
       ''s"\<newline>''],
       ''        ordering = ["-created_at"]\<newline>'',
       ''\<newline>'',
       ''    def __str__(self):\<newline>'',
       concat [''        return str(self.'',
       first_field,
       '')\<newline>''],
       concat [''\<newline>'',
       ''\<newline>'']]\<close>

definition model_class :: "string \<Rightarrow> pyval \<Rightarrow> py_error + string" where
  \<open>model_class model_name model_config =
     bnd (py_get model_config ''description'' (PStr (concat [model_name,
       '' model'']))) (\<lambda>description.
     bnd (py_get model_config ''fields'' (PDict [])) (\<lambda>flds.
     bnd (py_items flds) (\<lambda>items.
     bnd (model_field_lines items) (\<lambda>lines.
       Inr (model_class_head model_name description @ model_id_line @ lines @
            model_class_tail model_name
              (case items of [] \<Rightarrow> ''id'' | item # _ \<Rightarrow> fst item))))))\<close>

fun model_classes :: "(string \<times> pyval) list \<Rightarrow> py_error + string" where
  "model_classes [] = Inr []"
| "model_classes ((model_name, model_config) # rest) =
     bnd (model_class model_name model_config) (\<lambda>code.
     bnd (model_classes rest) (\<lambda>more. Inr (code @ more)))"

definition models_header :: "pyval \<Rightarrow> string" where
  \<open>models_header project_name = concat [''"""\<newline>'',
       ''Django Models for '',
       py_str project_name,
       ''\<newline>'',
       ''Generated by InfraNest\<newline>'',
       ''"""\<newline>'',
       ''from django.db import models\<newline>'',
       ''from django.contrib.auth.models import AbstractUser\<newline>'',
       ''from django.core.validators import MinValueValidator, MaxValueValidator\<newline>'',
       ''import uuid\<newline>'',
       ''\<newline>'',
       ''\<newline>'',
       ''class User(AbstractUser):\<newline>'',
       ''    """Extended user model"""\<newline>'',
       ''    id = models.UUIDField(primary_key=True, default=uuid.uuid4, editable=False)\<newline>'',
       ''    bio = models.TextField(blank=True)\<newline>'',
       ''    avatar = models.URLField(blank=True)\<newline>'',
       ''    created_at = models.DateTimeField(auto_now_add=True)\<newline>'',
       ''    updated_at = models.DateTimeField(auto_now=True)\<newline>'',
       ''    \<newline>'',
       ''    class Meta:\<newline>'',
       ''        db_table = 'users'',
       [CHR 0x27],
       ''\<newline>'',
       ''        ordering = ['-created_at']\<newline>'',
       ''\<newline>'',
       ''\<newline>'']\<close>

definition generate_models_complete :: "pyval \<Rightarrow> py_error + string" where
  \<open>generate_models_complete dsl_spec =
     bnd (meta_get dsl_spec ''name'' (PStr ''project'')) (\<lambda>project_name.
     bnd (py_get dsl_spec ''models'' (PDict [])) (\<lambda>models.
     bnd (py_items models) (\<lambda>items.
     bnd (model_classes items) (\<lambda>classes.
       Inr (models_header project_name @ classes)))))\<close>

text \<open>\<open>_generate_views_complete\<close>\<close>

definition view_set :: "string \<Rightarrow> string" where
  \<open>view_set model_name = concat [''class '',
       model_name,
       ''ViewSet(viewsets.ModelViewSet):\<newline>'',
       ''    """\<newline>'',
       ''    API endpoint for '',
       model_name,
       '' operations\<newline>'',
       ''    Provides list, create, retrieve, update, and delete operations\<newline>'',
       ''    """\<newline>'',
       ''    queryset = '',
       model_name,
       ''.objects.all()\<newline>'',
       ''    serializer_class = '',
       model_name,
       ''Serializer\<newline>'',
       ''    permission_classes = [IsAuthenticated]\<newline>'',
       ''    filter_backends = [DjangoFilterBackend, filters.SearchFilter, filters.OrderingFilter]\<newline>'',
       ''    filterset_fields = ['created_at', 'updated_at']\<newline>'',
       ''    search_fields = ['id']\<newline>'',
       ''    ordering_fields = ['created_at', 'updated_at']\<newline>'',
       ''    ordering = ['-created_at']\<newline>'',
       ''    \<newline>'',
       ''    def get_permissions(self):\<newline>'',
       ''        """Set permissions based on action"""\<newline>'',
       ''        if self.action == 'list':\<newline>'',
       ''            return [AllowAny()]\<newline>'',
       ''        return [IsAuthenticated()]\<newline>'',
       ''    \<newline>'',
       ''    @action(detail=False, methods=['get'])\<newline>'',
       ''    def recent(self, request):\<newline>'',
       ''        """Get recent items"""\<newline>'',
       ''        recent = self.get_queryset()[:10]\<newline>'',
       ''        serializer = self.get_serializer(recent, many=True)\<newline>'',
       ''        return Response(serializer.data)\<newline>'',
       ''    \<newline>'',
       ''    @action(detail=True, methods=['post'])\<newline>'',
       ''    def activate(self, request, pk=None):\<newline>'',
       ''        """Activate an item"""\<newline>'',
       ''        instance = self.get_object()\<newline>'',
       ''        # Add activation logic here\<newline>'',
       ''        return Response({'status': 'activated'})\<newline>'',
       ''\<newline>'',
       ''\<newline>'']\<close>

definition generate_views_complete :: "pyval \<Rightarrow> py_error + string" where
  \<open>generate_views_complete dsl_spec =
     bnd (meta_get dsl_spec ''name'' (PStr ''project'')) (\<lambda>project_name.
     bnd (py_get dsl_spec ''models'' (PDict [])) (\<lambda>models.
     bnd (py_keys models) (\<lambda>names.
       Inr (concat [''"""\<newline>'',
       ''Django Views for '',
       py_str project_name,
       ''\<newline>'',
       ''Generated by InfraNest\<newline>'',
       ''"""\<newline>'',
       ''from rest_framework import viewsets, status, filters\<newline>'',
       ''from rest_framework.decorators import action\<newline>'',
       ''from rest_framework.response import Response\<newline>'',
       ''from rest_framework.permissions import IsAuthenticated, AllowAny\<newline>'',
       ''from django_filters.rest_framework import DjangoFilterBackend\<newline>'',
       ''from .models import *\<newline>'',
       ''from .serializers import *\<newline>'',
       ''\<newline>'',
       ''\<newline>''] @ concat (map view_set names)))))\<close>

text \<open>
  \<open>_generate_serializers_complete\<close>. The field list of a serializer is the Python list
  \<open>['id'] + fields + ['created_at', 'updated_at']\<close>, printed by \<open>repr\<close>.
\<close>

definition serializer_fields :: "string list \<Rightarrow> string list" where
  "serializer_fields field_keys = [''id''] @ field_keys @ [''created_at'', ''updated_at'']"

definition serializer_class :: "string \<Rightarrow> string list \<Rightarrow> string" where
  \<open>serializer_class model_name all_fields = concat [''class '',
       model_name,
       ''Serializer(serializers.ModelSerializer):\<newline>'',
       ''    """Serializer for '',
       model_name,
       '' model"""\<newline>'',
       ''    \<newline>'',
       ''    class Meta:\<newline>'',
       ''        model = '',
       model_name,
       ''\<newline>'',
       ''        fields = '',
       py_repr (PList (map PStr all_fields)),
       ''\<newline>'',
       ''        read_only_fields = ['id', 'created_at', 'updated_at']\<newline>'',
       ''\<newline>'',
       ''\<newline>'']\<close>

fun serializer_classes :: "(string \<times> pyval) list \<Rightarrow> py_error + string" where
  "serializer_classes [] = Inr []"
| "serializer_classes ((model_name, model_config) # rest) =
     bnd (py_get model_config ''fields'' (PDict [])) (\<lambda>flds.
     bnd (py_keys flds) (\<lambda>field_keys.
     bnd (serializer_classes rest) (\<lambda>more.
       Inr (serializer_class model_name (serializer_fields field_keys) @ more))))"

definition serializers_header :: "pyval \<Rightarrow> string" where
  \<open>serializers_header project_name = concat [''"""\<newline>'',
       ''Django Serializers for '',
       py_str project_name,
       ''\<newline>'',
       ''Generated by InfraNest\<newline>'',
       ''"""\<newline>'',
       ''from rest_framework import serializers\<newline>'',
       ''from .models import *\<newline>'',
       ''\<newline>'',
       ''\<newline>'']\<close>

definition generate_serializers_complete :: "pyval \<Rightarrow> py_error + string" where
  \<open>generate_serializers_complete dsl_spec =
     bnd (meta_get dsl_spec ''name'' (PStr ''project'')) (\<lambda>project_name.
     bnd (py_get dsl_spec ''models'' (PDict [])) (\<lambda>models.
     bnd (py_items models) (\<lambda>items.
     bnd (serializer_classes items) (\<lambda>classes.
       Inr (serializers_header project_name @ classes)))))\<close>

text \<open>\<open>_generate_urls_complete\<close>\<close>

definition router_line :: "string \<Rightarrow> string" where
  \<open>router_line model_name =
     (let route_name = to_snake_case model_name @ ''s'' in
      concat [''router.register(r'',
       [CHR 0x27],
       route_name,
       [CHR 0x27],
       '', views.'',
       model_name,
       ''ViewSet, basename='',
       [CHR 0x27],
       route_name,
       [CHR 0x27],
       '')\<newline>''])\<close>

definition generate_urls_complete :: "pyval \<Rightarrow> py_error + string" where
  \<open>generate_urls_complete dsl_spec =
     bnd (meta_get dsl_spec ''name'' (PStr ''project'')) (\<lambda>project_name.
     bnd (py_get dsl_spec ''models'' (PDict [])) (\<lambda>models.
     bnd (py_keys models) (\<lambda>names.
       Inr (concat [''"""\<newline>'',
       ''Django URLs for '',
       py_str project_name,
       ''\<newline>'',
       ''Generated by InfraNest\<newline>'',
       ''"""\<newline>'',
       ''from django.urls import path, include\<newline>'',
       ''from rest_framework.routers import DefaultRouter\<newline>'',
       ''from . import views\<newline>'',
       ''\<newline>'',
       ''# Create a router and register viewsets\<newline>'',
       ''router = DefaultRouter()\<newline>''] @ concat (map router_line names) @
            concat [''\<newline>'',
       ''urlpatterns = [\<newline>'',
       ''    path('',
       [CHR 0x27],
       [CHR 0x27],
       '', include(router.urls)),\<newline>'',
       '']\<newline>'']))))\<close>

text \<open>\<open>_generate_admin_complete\<close>\<close>

definition admin_class :: "string \<Rightarrow> string list \<Rightarrow> string" where
  \<open>admin_class model_name field_keys = concat [''@admin.register('',
       model_name,
       '')\<newline>'',
       ''class '',
       model_name,
       ''Admin(admin.ModelAdmin):\<newline>'',
       ''    """Admin interface for '',
       model_name,
       ''"""\<newline>'',
       ''    list_display = ['id'] + '',
       py_repr (PList (map PStr (take 5 field_keys))),
       '' + ['created_at', 'updated_at']\<newline>'',
       ''    list_filter = ['created_at', 'updated_at']\<newline>'',
       ''    search_fields = '',
       py_repr (PList (map PStr (take 3 field_keys))),
       ''\<newline>'',
       ''    readonly_fields = ['id', 'created_at', 'updated_at']\<newline>'',
       ''    ordering = ['-created_at']\<newline>'',
       ''\<newline>'',
       ''\<newline>'']\<close>

fun admin_classes :: "(string \<times> pyval) list \<Rightarrow> py_error + string" where
  "admin_classes [] = Inr []"
| "admin_classes ((model_name, model_config) # rest) =
     bnd (py_get model_config ''fields'' (PDict [])) (\<lambda>flds.
     bnd (py_keys flds) (\<lambda>field_keys.
     bnd (admin_classes rest) (\<lambda>more.
       Inr (admin_class model_name field_keys @ more))))"

definition generate_admin_complete :: "pyval \<Rightarrow> py_error + string" where
  \<open>generate_admin_complete dsl_spec =
     bnd (meta_get dsl_spec ''name'' (PStr ''project'')) (\<lambda>project_name.
     bnd (py_get dsl_spec ''models'' (PDict [])) (\<lambda>models.
     bnd (py_items models) (\<lambda>items.
     bnd (admin_classes items) (\<lambda>classes.
       Inr (concat [''"""\<newline>'',
       ''Django Admin for '',
       py_str project_name,
       ''\<newline>'',
       ''Generated by InfraNest\<newline>'',
       ''"""\<newline>'',
       ''from django.contrib import admin\<newline>'',
       ''from .models import *\<newline>'',
       ''\<newline>'',
       ''\<newline>''] @ classes)))))\<close>

text \<open>\<open>_generate_tests\<close>\<close>

definition test_case :: "string \<Rightarrow> string" where
  \<open>test_case model_name = concat [''class '',
       model_name,
       ''TestCase(APITestCase):\<newline>'',
       ''    """Test case for '',
       model_name,
       '' API"""\<newline>'',
       ''    \<newline>'',
       ''    def setUp(self):\<newline>'',
       ''        """Set up test data"""\<newline>'',
       ''        pass\<newline>'',
       ''    \<newline>'',
       ''    def test_list_'',
       py_lower model_name,
       ''(self):\<newline>'',
       ''        """Test listing '',
       model_name,
       ''"""\<newline>'',
       ''        url = '/api/'',
       to_snake_case model_name,
       ''s/'',
       [CHR 0x27],
       ''\<newline>'',
       ''        response = self.client.get(url)\<newline>'',
       ''        self.assertEqual(response.status_code, status.HTTP_200_OK)\<newline>'',
       ''    \<newline>'',
       ''    def test_create_'',
       py_lower model_name,
       ''(self):\<newline>'',
       ''        """Test creating '',
       model_name,
       ''"""\<newline>'',
       ''        url = '/api/'',
       to_snake_case model_name,
       ''s/'',
       [CHR 0x27],
       ''\<newline>'',
       ''        data = {}\<newline>'',
       ''        response = self.client.post(url, data, format='json')\<newline>'',
       ''        self.assertEqual(response.status_code, status.HTTP_201_CREATED)\<newline>'',
       ''\<newline>'',
       ''\<newline>'']\<close>

definition generate_tests :: "pyval \<Rightarrow> py_error + string" where
  \<open>generate_tests dsl_spec =
     bnd (py_get dsl_spec ''models'' (PDict [])) (\<lambda>models.
     bnd (py_keys models) (\<lambda>names.
       Inr (concat [''"""\<newline>'',
       ''Tests for the application\<newline>'',
       ''"""\<newline>'',
       ''from django.test import TestCase\<newline>'',
       ''from rest_framework.test import APITestCase\<newline>'',
       ''from rest_framework import status\<newline>'',
       ''from .models import *\<newline>'',
       ''\<newline>'',
       ''\<newline>''] @ concat (map test_case names))))\<close>

text \<open>The files that depend on the project name, the description and the database only.\<close>

definition generate_settings_complete :: "pyval \<Rightarrow> py_error + string" where
  \<open>generate_settings_complete dsl_spec =
     bnd (meta_get dsl_spec ''name'' (PStr ''project'')) (\<lambda>project_name.
     bnd (meta_get dsl_spec ''database'' (PStr ''postgresql'')) (\<lambda>database.
     Inr (concat [''"""\<newline>'',
       ''Django settings for '',
       py_str project_name,
       ''\<newline>'',
       ''Generated by InfraNest\<newline>'',
       ''"""\<newline>'',
       ''import os\<newline>'',
       ''from pathlib import Path\<newline>'',
       ''from decouple import config\<newline>'',
       ''\<newline>'',
       ''BASE_DIR = Path(__file__).resolve().parent.parent\<newline>'',
       ''\<newline>'',
       ''SECRET_KEY = config('SECRET_KEY', default='django-insecure-change-this-in-production')\<newline>'',
       ''\<newline>'',
       ''DEBUG = config('DEBUG', default=True, cast=bool)\<newline>'',
       ''\<newline>'',
       ''ALLOWED_HOSTS = config('ALLOWED_HOSTS', default='localhost,127.0.0.1', cast=lambda v: [s.strip() for s in v.split(',')])\<newline>'',
       ''\<newline>'',
       ''# Application definition\<newline>'',
       ''INSTALLED_APPS = [\<newline>'',
       ''    'django.contrib.admin',\<newline>'',
       ''    'django.contrib.auth',\<newline>'',
       ''    'django.contrib.contenttypes',\<newline>'',
       ''    'django.contrib.sessions',\<newline>'',
       ''    'django.contrib.messages',\<newline>'',
       ''    'django.contrib.staticfiles',\<newline>'',
       ''    \<newline>'',
       ''    # Third party apps\<newline>'',
       ''    'rest_framework',\<newline>'',
       ''    'rest_framework.authtoken',\<newline>'',
       ''    'corsheaders',\<newline>'',
       ''    'django_filters',\<newline>'',
       ''    \<newline>'',
       ''    # Local apps\<newline>'',
       ''    'app',\<newline>'',
       '']\<newline>'',
       ''\<newline>'',
       ''MIDDLEWARE = [\<newline>'',
       ''    'corsheaders.middleware.CorsMiddleware',\<newline>'',
       ''    'django.middleware.security.SecurityMiddleware',\<newline>'',
       ''    'django.contrib.sessions.middleware.SessionMiddleware',\<newline>'',
       ''    'django.middleware.common.CommonMiddleware',\<newline>'',
       ''    'django.middleware.csrf.CsrfViewMiddleware',\<newline>'',
       ''    'django.contrib.auth.middleware.AuthenticationMiddleware',\<newline>'',
       ''    'django.contrib.messages.middleware.MessageMiddleware',\<newline>'',
       ''    'django.middleware.clickjacking.XFrameOptionsMiddleware',\<newline>'',
       '']\<newline>'',
       ''\<newline>'',
       ''ROOT_URLCONF = 'project.urls'',
       [CHR 0x27],
       ''\<newline>'',
       ''\<newline>'',
       ''TEMPLATES = [\<newline>'',
       ''    {\<newline>'',
       ''        'BACKEND': 'django.template.backends.django.DjangoTemplates',\<newline>'',
       ''        'DIRS': [],\<newline>'',
       ''        'APP_DIRS': True,\<newline>'',
       ''        'OPTIONS': {\<newline>'',
       ''            'context_processors': [\<newline>'',
       ''                'django.template.context_processors.debug',\<newline>'',
       ''                'django.template.context_processors.request',\<newline>'',
       ''                'django.contrib.auth.context_processors.auth',\<newline>'',
       ''                'django.contrib.messages.context_processors.messages',\<newline>'',
       ''            ],\<newline>'',
       ''        },\<newline>'',
       ''    },\<newline>'',
       '']\<newline>'',
       ''\<newline>'',
       ''WSGI_APPLICATION = 'project.wsgi.application'',
       [CHR 0x27],
       ''\<newline>'',
       ''\<newline>'',
       ''# Database\<newline>'',
       ''DATABASES = {\<newline>'',
       ''    'default': {\<newline>'',
       ''        'ENGINE': 'django.db.backends.'',
       py_str database,
       [CHR 0x27],
       '',\<newline>'',
       ''        'NAME': config('DB_NAME', default='',
       [CHR 0x27],
       py_str project_name,
       ''_db'),\<newline>'',
       ''        'USER': config('DB_USER', default='postgres'),\<newline>'',
       ''        'PASSWORD': config('DB_PASSWORD', default='postgres'),\<newline>'',
       ''        'HOST': config('DB_HOST', default='localhost'),\<newline>'',
       ''        'PORT': config('DB_PORT', default='5432'),\<newline>'',
       ''    }\<newline>'',
       ''}\<newline>'',
       ''\<newline>'',
       ''# Password validation\<newline>'',
       ''AUTH_PASSWORD_VALIDATORS = [\<newline>'',
       ''    {'NAME': 'django.contrib.auth.password_validation.UserAttributeSimilarityValidator'},\<newline>'',
       ''    {'NAME': 'django.contrib.auth.password_validation.MinimumLengthValidator'},\<newline>'',
       ''    {'NAME': 'django.contrib.auth.password_validation.CommonPasswordValidator'},\<newline>'',
       ''    {'NAME': 'django.contrib.auth.password_validation.NumericPasswordValidator'},\<newline>'',
       '']\<newline>'',
       ''\<newline>'',
       ''# Internationalization\<newline>'',
       ''LANGUAGE_CODE = 'en-us'',
       [CHR 0x27],
       ''\<newline>'',
       ''TIME_ZONE = 'UTC'',
       [CHR 0x27],
       ''\<newline>'',
       ''USE_I18N = True\<newline>'',
       ''USE_TZ = True\<newline>'',
       ''\<newline>'',
       ''# Static files\<newline>'',
       ''STATIC_URL = 'static/'',
       [CHR 0x27],
       ''\<newline>'',
       ''STATIC_ROOT = os.path.join(BASE_DIR, 'staticfiles')\<newline>'',
       ''\<newline>'',
       ''# Media files\<newline>'',
       ''MEDIA_URL = 'media/'',
       [CHR 0x27],
       ''\<newline>'',
       ''MEDIA_ROOT = os.path.join(BASE_DIR, 'media')\<newline>'',
       ''\<newline>'',
       ''DEFAULT_AUTO_FIELD = 'django.db.models.BigAutoField'',
       [CHR 0x27],
       ''\<newline>'',
       ''\<newline>'',
       ''# REST Framework settings\<newline>'',
       ''REST_FRAMEWORK = {\<newline>'',
       ''    'DEFAULT_AUTHENTICATION_CLASSES': [\<newline>'',
       ''        'rest_framework.authentication.TokenAuthentication',\<newline>'',
       ''        'rest_framework.authentication.SessionAuthentication',\<newline>'',
       ''    ],\<newline>'',
       ''    'DEFAULT_PERMISSION_CLASSES': [\<newline>'',
       ''        'rest_framework.permissions.IsAuthenticated',\<newline>'',
       ''    ],\<newline>'',
       ''    'DEFAULT_PAGINATION_CLASS': 'rest_framework.pagination.PageNumberPagination',\<newline>'',
       ''    'PAGE_SIZE': 20,\<newline>'',
       ''    'DEFAULT_FILTER_BACKENDS': [\<newline>'',
       ''        'django_filters.rest_framework.DjangoFilterBackend',\<newline>'',
       ''        'rest_framework.filters.SearchFilter',\<newline>'',
       ''        'rest_framework.filters.OrderingFilter',\<newline>'',
       ''    ],\<newline>'',
       ''}\<newline>'',
       ''\<newline>'',
       ''# CORS settings\<newline>'',
       ''CORS_ALLOWED_ORIGINS = [\<newline>'',
       ''    "http://localhost:3000",\<newline>'',
       ''    "http://localhost:5173",\<newline>'',
       ''    "http://localhost:8080",\<newline>'',
       '']\<newline>'',
       ''\<newline>'',
       ''CORS_ALLOW_CREDENTIALS = True\<newline>'',
       ''\<newline>'',
       ''# Custom user model\<newline>'',
       ''AUTH_USER_MODEL = 'app.User'',
       [CHR 0x27],
       ''\<newline>''])))\<close>

definition generate_project_urls :: "pyval \<Rightarrow> py_error + string" where
  \<open>generate_project_urls dsl_spec =
     bnd (meta_get dsl_spec ''name'' (PStr ''project'')) (\<lambda>project_name.
     Inr (concat [''"""\<newline>'',
       ''URL configuration for '',
       py_str project_name,
       '' project\<newline>'',
       ''Generated by InfraNest\<newline>'',
       ''"""\<newline>'',
       ''from django.contrib import admin\<newline>'',
       ''from django.urls import path, include\<newline>'',
       ''from rest_framework.authtoken.views import obtain_auth_token\<newline>'',
       ''\<newline>'',
       ''urlpatterns = [\<newline>'',
       ''    path('admin/', admin.site.urls),\<newline>'',
       ''    path('api/', include('app.urls')),\<newline>'',
       ''    path('api/auth/token/', obtain_auth_token, name='api_token_auth'),\<newline>'',
       '']\<newline>'']))\<close>

definition generate_docker_compose :: "pyval \<Rightarrow> py_error + string" where
  \<open>generate_docker_compose dsl_spec =
     bnd (meta_get dsl_spec ''name'' (PStr ''project'')) (\<lambda>project_name.
     Inr (concat [''version: '3.8'',
       [CHR 0x27],
       ''\<newline>'',
       ''\<newline>'',
       ''services:\<newline>'',
       ''  db:\<newline>'',
       ''    image: postgres:15\<newline>'',
       ''    volumes:\<newline>'',
       ''      - postgres_data:/var/lib/postgresql/data\<newline>'',
       ''    environment:\<newline>'',
       ''      - POSTGRES_DB='',
       py_str project_name,
       ''_db\<newline>'',
       ''      - POSTGRES_USER=postgres\<newline>'',
       ''      - POSTGRES_PASSWORD=postgres\<newline>'',
       ''    ports:\<newline>'',
       ''      - "5432:5432"\<newline>'',
       ''\<newline>'',
       ''  web:\<newline>'',
       ''    build: .\<newline>'',
       ''    command: python manage.py runserver 0.0.0.0:8000\<newline>'',
       ''    volumes:\<newline>'',
       ''      - .:/app\<newline>'',
       ''    ports:\<newline>'',
       ''      - "8000:8000"\<newline>'',
       ''    environment:\<newline>'',
       ''      - DEBUG=True\<newline>'',
       ''      - DB_NAME='',
       py_str project_name,
       ''_db\<newline>'',
       ''      - DB_USER=postgres\<newline>'',
       ''      - DB_PASSWORD=postgres\<newline>'',
       ''      - DB_HOST=db\<newline>'',
       ''      - DB_PORT=5432\<newline>'',
       ''    depends_on:\<newline>'',
       ''      - db\<newline>'',
       ''\<newline>'',
       ''volumes:\<newline>'',
       ''  postgres_data:\<newline>'']))\<close>

definition generate_env_example :: "pyval \<Rightarrow> py_error + string" where
  \<open>generate_env_example dsl_spec =
     bnd (meta_get dsl_spec ''name'' (PStr ''project'')) (\<lambda>project_name.
     Inr (concat [''# Django settings\<newline>'',
       ''SECRET_KEY=your-secret-key-here\<newline>'',
       ''DEBUG=True\<newline>'',
       ''ALLOWED_HOSTS=localhost,127.0.0.1\<newline>'',
       ''\<newline>'',
       ''# Database\<newline>'',
       ''DB_NAME='',
       py_str project_name,
       ''_db\<newline>'',
       ''DB_USER=postgres\<newline>'',
       ''DB_PASSWORD=postgres\<newline>'',
       ''DB_HOST=localhost\<newline>'',
       ''DB_PORT=5432\<newline>'']))\<close>

definition generate_readme :: "pyval \<Rightarrow> py_error + string" where
  \<open>generate_readme dsl_spec =
     bnd (meta_get dsl_spec ''name'' (PStr ''project'')) (\<lambda>project_name.
     bnd (meta_get dsl_spec ''description'' (PStr ''A Django REST API project'')) (\<lambda>description.
     Inr (concat [''# '',
       py_str project_name,
       ''\<newline>'',
       ''\<newline>'',
       py_str description,
       ''\<newline>'',
       ''\<newline>'',
       ''## Generated by InfraNest\<newline>'',
       ''\<newline>'',
       ''This project was automatically generated using InfraNest DSL-to-Code generator.\<newline>'',
       ''\<newline>'',
       ''## Features\<newline>'',
       ''\<newline>'',
       ''- Django REST Framework API\<newline>'',
       ''- PostgreSQL database\<newline>'',
       ''- JWT Authentication\<newline>'',
       ''- Docker support\<newline>'',
       ''- Comprehensive test suite\<newline>'',
       ''- Admin interface\<newline>'',
       ''\<newline>'',
       ''## Setup\<newline>'',
       ''\<newline>'',
       ''### Prerequisites\<newline>'',
       ''\<newline>'',
       ''- Python 3.11+\<newline>'',
       ''- PostgreSQL 15+\<newline>'',
       ''- Docker (optional)\<newline>'',
       ''\<newline>'',
       ''### Installation\<newline>'',
       ''\<newline>'',
       ''1. Clone the repository\<newline>'',
       ''2. Create virtual environment:\<newline>'',
       ''   ```bash\<newline>'',
       ''   python -m venv venv\<newline>'',
       ''   source venv/bin/activate  # On Windows: venv'',
       [CHR 0x5C],
       ''Scripts'',
       [CHR 0x5C],
       ''activate\<newline>'',
       ''   ```\<newline>'',
       ''\<newline>'',
       ''3. Install dependencies:\<newline>'',
       ''   ```bash\<newline>'',
       ''   pip install -r requirements.txt\<newline>'',
       ''   ```\<newline>'',
       ''\<newline>'',
       ''4. Set up environment variables:\<newline>'',
       ''   ```bash\<newline>'',
       ''   cp .env.example .env\<newline>'',
       ''   # Edit .env with your settings\<newline>'',
       ''   ```\<newline>'',
       ''\<newline>'',
       ''5. Run migrations:\<newline>'',
       ''   ```bash\<newline>'',
       ''   python manage.py migrate\<newline>'',
       ''   ```\<newline>'',
       ''\<newline>'',
       ''6. Create superuser:\<newline>'',
       ''   ```bash\<newline>'',
       ''   python manage.py createsuperuser\<newline>'',
       ''   ```\<newline>'',
       ''\<newline>'',
       ''7. Run development server:\<newline>'',
       ''   ```bash\<newline>'',
       ''   python manage.py runserver\<newline>'',
       ''   ```\<newline>'',
       ''\<newline>'',
       ''### Docker Setup\<newline>'',
       ''\<newline>'',
       ''1. Build and run with Docker Compose:\<newline>'',
       ''   ```bash\<newline>'',
       ''   docker-compose up --build\<newline>'',
       ''   ```\<newline>'',
       ''\<newline>'',
       ''2. Run migrations:\<newline>'',
       ''   ```bash\<newline>'',
       ''   docker-compose exec web python manage.py migrate\<newline>'',
       ''   ```\<newline>'',
       ''\<newline>'',
       ''3. Create superuser:\<newline>'',
       ''   ```bash\<newline>'',
       ''   docker-compose exec web python manage.py createsuperuser\<newline>'',
       ''   ```\<newline>'',
       ''\<newline>'',
       ''## API Endpoints\<newline>'',
       ''\<newline>'',
       ''- `/admin/` - Django admin interface\<newline>'',
       ''- `/api/` - REST API endpoints\<newline>'',
       ''- `/api/auth/token/` - Authentication token endpoint\<newline>'',
       ''\<newline>'',
       ''## Testing\<newline>'',
       ''\<newline>'',
       ''Run tests with:\<newline>'',
       ''```bash\<newline>'',
       ''pytest\<newline>'',
       ''```\<newline>'',
       ''\<newline>'',
       ''## License\<newline>'',
       ''\<newline>'',
       ''MIT License\<newline>''])))\<close>

text \<open>The files with fixed text.\<close>

definition generate_wsgi :: "pyval \<Rightarrow> py_error + string" where
  \<open>generate_wsgi dsl_spec = Inr (concat [''"""\<newline>'',
       ''WSGI config for project\<newline>'',
       ''"""\<newline>'',
       ''import os\<newline>'',
       ''from django.core.wsgi import get_wsgi_application\<newline>'',
       ''\<newline>'',
       ''os.environ.setdefault('DJANGO_SETTINGS_MODULE', 'project.settings')\<newline>'',
       ''application = get_wsgi_application()\<newline>''])\<close>

definition generate_asgi :: "pyval \<Rightarrow> py_error + string" where
  \<open>generate_asgi dsl_spec = Inr (concat [''"""\<newline>'',
       ''ASGI config for project\<newline>'',
       ''"""\<newline>'',
       ''import os\<newline>'',
       ''from django.core.asgi import get_asgi_application\<newline>'',
       ''\<newline>'',
       ''os.environ.setdefault('DJANGO_SETTINGS_MODULE', 'project.settings')\<newline>'',
       ''application = get_asgi_application()\<newline>''])\<close>

definition generate_apps_py :: "pyval \<Rightarrow> py_error + string" where
  \<open>generate_apps_py dsl_spec = Inr (concat [''"""\<newline>'',
       ''App configuration\<newline>'',
       ''"""\<newline>'',
       ''from django.apps import AppConfig\<newline>'',
       ''\<newline>'',
       ''\<newline>'',
       ''class AppConfig(AppConfig):\<newline>'',
       ''    default_auto_field = 'django.db.models.BigAutoField'',
       [CHR 0x27],
       ''\<newline>'',
       ''    name = 'app'',
       [CHR 0x27],
       ''\<newline>''])\<close>

definition generate_requirements_complete :: "pyval \<Rightarrow> py_error + string" where
  \<open>generate_requirements_complete dsl_spec = Inr (concat [''# Django Framework\<newline>'',
       ''Django==4.2.7\<newline>'',
       ''djangorestframework==3.14.0\<newline>'',
       ''\<newline>'',
       ''# Database\<newline>'',
       ''psycopg2-binary==2.9.9\<newline>'',
       ''\<newline>'',
       ''# CORS headers\<newline>'',
       ''django-cors-headers==4.3.1\<newline>'',
       ''\<newline>'',
       ''# Environment variables\<newline>'',
       ''python-decouple==3.8\<newline>'',
       ''\<newline>'',
       ''# Filtering\<newline>'',
       ''django-filter==23.5\<newline>'',
       ''\<newline>'',
       ''# Testing\<newline>'',
       ''pytest==7.4.3\<newline>'',
       ''pytest-django==4.7.0\<newline>'',
       ''pytest-cov==4.1.0\<newline>'',
       ''\<newline>'',
       ''# Code quality\<newline>'',
       ''black==23.12.1\<newline>'',
       ''flake8==7.0.0\<newline>'',
       ''isort==5.13.2\<newline>'',
       ''\<newline>'',
       ''# Production server\<newline>'',
       ''gunicorn==21.2.0\<newline>'',
       ''whitenoise==6.6.0\<newline>''])\<close>

definition generate_dockerfile_complete :: "pyval \<Rightarrow> py_error + string" where
  \<open>generate_dockerfile_complete dsl_spec = Inr (concat [''FROM python:3.11-slim\<newline>'',
       ''\<newline>'',
       ''# Set environment variables\<newline>'',
       ''ENV PYTHONDONTWRITEBYTECODE=1\<newline>'',
       ''ENV PYTHONUNBUFFERED=1\<newline>'',
       ''\<newline>'',
       ''# Set work directory\<newline>'',
       ''WORKDIR /app\<newline>'',
       ''\<newline>'',
       ''# Install system dependencies\<newline>'',
       ''RUN apt-get update && apt-get install -y '',
       [CHR 0x5C],
       ''\<newline>'',
       ''    postgresql-client '',
       [CHR 0x5C],
       ''\<newline>'',
       ''    && rm -rf /var/lib/apt/lists/*\<newline>'',
       ''\<newline>'',
       ''# Install Python dependencies\<newline>'',
       ''COPY requirements.txt /app/\<newline>'',
       ''RUN pip install --upgrade pip && pip install -r requirements.txt\<newline>'',
       ''\<newline>'',
       ''# Copy project\<newline>'',
       ''COPY . /app/\<newline>'',
       ''\<newline>'',
       ''# Collect static files\<newline>'',
       ''RUN python manage.py collectstatic --noinput\<newline>'',
       ''\<newline>'',
       ''# Run migrations and start server\<newline>'',
       ''CMD ["gunicorn", "project.wsgi:application", "--bind", "0.0.0.0:8000", "--workers", "4"]\<newline>''])\<close>

definition generate_gitignore :: string where
  \<open>generate_gitignore = concat [''# Python\<newline>'',
       ''__pycache__/\<newline>'',
       ''*.py[cod]\<newline>'',
       ''*$py.class\<newline>'',
       ''*.so\<newline>'',
       ''.Python\<newline>'',
       ''env/\<newline>'',
       ''venv/\<newline>'',
       ''ENV/\<newline>'',
       ''build/\<newline>'',
       ''develop-eggs/\<newline>'',
       ''dist/\<newline>'',
       ''downloads/\<newline>'',
       ''eggs/\<newline>'',
       ''.eggs/\<newline>'',
       ''lib/\<newline>'',
       ''lib64/\<newline>'',
       ''parts/\<newline>'',
       ''sdist/\<newline>'',
       ''var/\<newline>'',
       ''wheels/\<newline>'',
       ''*.egg-info/\<newline>'',
       ''.installed.cfg\<newline>'',
       ''*.egg\<newline>'',
       ''\<newline>'',
       ''# Django\<newline>'',
       ''*.log\<newline>'',
       ''local_settings.py\<newline>'',
       ''db.sqlite3\<newline>'',
       ''db.sqlite3-journal\<newline>'',
       ''/media\<newline>'',
       ''/staticfiles\<newline>'',
       ''\<newline>'',
       ''# Environment\<newline>'',
       ''.env\<newline>'',
       ''\<newline>'',
       ''# IDE\<newline>'',
       ''.vscode/\<newline>'',
       ''.idea/\<newline>'',
       ''*.swp\<newline>'',
       ''*.swo\<newline>'',
       ''*~\<newline>'',
       ''\<newline>'',
       ''# OS\<newline>'',
       ''.DS_Store\<newline>'',
       ''Thumbs.db\<newline>'']\<close>

definition generate_pytest_ini :: string where
  \<open>generate_pytest_ini = concat [''[pytest]\<newline>'',
       ''DJANGO_SETTINGS_MODULE = project.settings\<newline>'',
       ''python_files = tests.py test_*.py *_tests.py\<newline>'',
       ''addopts = --cov=. --cov-report=html --cov-report=term-missing\<newline>'']\<close>

definition generate_dockerignore :: string where
  \<open>generate_dockerignore = concat [''__pycache__\<newline>'',
       ''*.pyc\<newline>'',
       ''*.pyo\<newline>'',
       ''*.pyd\<newline>'',
       ''.Python\<newline>'',
       ''env/\<newline>'',
       ''venv/\<newline>'',
       ''.git\<newline>'',
       ''.gitignore\<newline>'',
       ''.dockerignore\<newline>'',
       ''Dockerfile\<newline>'',
       ''docker-compose.yml\<newline>'',
       ''.env\<newline>'',
       ''*.sqlite3\<newline>'']\<close>

section \<open>The base generator: its state and its checks\<close>

text \<open>
  A generator object carries the errors of its last \<open>validate_dsl\<close> and the flag
  \<open>security_checks_passed\<close>. A method returns its result (or the exception it raises) and
  the state of the object afterwards.
\<close>

record gen_state =
  validation_errors :: "string list"
  security_checks_passed :: bool

text \<open>
  \<open>validate_dsl\<close>. The loops append to \<open>self.validation_errors\<close>; these functions return the
  list as it is when they finish or raise.
\<close>

fun missing_fields ::
  "string \<Rightarrow> string list \<Rightarrow> pyval \<Rightarrow> string list \<Rightarrow> (py_error + unit) \<times> string list" where
  "missing_fields prefix [] v errs = (Inr (), errs)"
| "missing_fields prefix (f # fs) v errs =
     (case py_contains f v of
        Inl e \<Rightarrow> (Inl e, errs)
      | Inr b \<Rightarrow> missing_fields prefix fs v (if b then errs else errs @ [prefix @ f]))"

definition check_meta_section :: "pyval \<Rightarrow> string list \<Rightarrow> (py_error + unit) \<times> string list" where
  "check_meta_section dsl_spec errs =
     (case py_contains ''meta'' dsl_spec of
        Inl e \<Rightarrow> (Inl e, errs)
      | Inr False \<Rightarrow> (Inr (), errs)
      | Inr True \<Rightarrow>
          (case py_getitem dsl_spec ''meta'' of
             Inl e \<Rightarrow> (Inl e, errs)
           | Inr meta \<Rightarrow>
               if \<not> is_dict meta then (Inr (), errs @ [''Meta section must be a dictionary''])
               else missing_fields ''Missing required meta field: ''
                      [''name'', ''version'', ''framework''] meta errs))"

fun check_model_defs :: "(string \<times> pyval) list \<Rightarrow> string list \<Rightarrow> string list" where
  "check_model_defs [] errs = errs"
| "check_model_defs ((model_name, model_def) # rest) errs =
     check_model_defs rest
       (case model_def of
          PDict kvs \<Rightarrow>
            if ''fields'' \<notin> set (map fst kvs)
            then errs @ [''Model '' @ model_name @ '' is missing fields definition'']
            else errs
        | _ \<Rightarrow> errs @ [''Model '' @ model_name @ '' definition must be a dictionary''])"

definition check_models_section :: "pyval \<Rightarrow> string list \<Rightarrow> (py_error + unit) \<times> string list" where
  "check_models_section dsl_spec errs =
     (case py_contains ''models'' dsl_spec of
        Inl e \<Rightarrow> (Inl e, errs)
      | Inr False \<Rightarrow> (Inr (), errs)
      | Inr True \<Rightarrow>
          (case py_getitem dsl_spec ''models'' of
             Inl e \<Rightarrow> (Inl e, errs)
           | Inr (PDict ms) \<Rightarrow> (Inr (), check_model_defs ms errs)
           | Inr _ \<Rightarrow> (Inr (), errs @ [''Models section must be a dictionary''])))"

definition dsl_errors :: "pyval \<Rightarrow> (py_error + unit) \<times> string list" where
  "dsl_errors dsl_spec =
     (case missing_fields ''Missing required field: '' [''meta'', ''models''] dsl_spec [] of
        (Inl e, errs) \<Rightarrow> (Inl e, errs)
      | (Inr u, errs1) \<Rightarrow>
          (case check_meta_section dsl_spec errs1 of
             (Inl e, errs) \<Rightarrow> (Inl e, errs)
           | (Inr u, errs2) \<Rightarrow> check_models_section dsl_spec errs2))"

definition validate_dsl :: "gen_state \<Rightarrow> pyval \<Rightarrow> (py_error + bool) \<times> gen_state" where
  "validate_dsl g dsl_spec =
     (case dsl_errors dsl_spec of
        (Inl e, errs) \<Rightarrow> (Inl e, g\<lparr>validation_errors := errs\<rparr>)
      | (Inr u, errs) \<Rightarrow> (Inr (length errs = 0), g\<lparr>validation_errors := errs\<rparr>))"

text \<open>\<open>perform_security_checks\<close> as a method: passing sets the flag.\<close>

definition perform_security_checks_st :: "gen_state \<Rightarrow> pyval \<Rightarrow> (py_error + bool) \<times> gen_state" where
  "perform_security_checks_st g dsl_spec =
     (case perform_security_checks dsl_spec of
        Inl e \<Rightarrow> (Inl e, g)
      | Inr False \<Rightarrow> (Inr False, g)
      | Inr True \<Rightarrow> (Inr True, g\<lparr>security_checks_passed := True\<rparr>))"

text \<open>
  The two checks every method of the Django generator starts with. A failed check is a
  ValueError carrying the message; it ends the method.
\<close>

definition gate :: "gen_state \<Rightarrow> pyval \<Rightarrow> (py_error + unit) \<times> gen_state" where
  "gate g dsl_spec =
     (case validate_dsl g dsl_spec of
        (Inl e, g1) \<Rightarrow> (Inl e, g1)
      | (Inr False, g1) \<Rightarrow>
          (Inl (ValueError (''Invalid DSL specification: '' @ join '', '' (validation_errors g1))), g1)
      | (Inr True, g1) \<Rightarrow>
          (case perform_security_checks_st g1 dsl_spec of
             (Inl e, g2) \<Rightarrow> (Inl e, g2)
           | (Inr False, g2) \<Rightarrow> (Inl (ValueError ''DSL specification failed security checks''), g2)
           | (Inr True, g2) \<Rightarrow> (Inr (), g2)))"

text \<open>What the two checks answer, as a function of the document alone.\<close>

definition gate_result :: "pyval \<Rightarrow> py_error + unit" where
  "gate_result spec =
     (case fst (dsl_errors spec) of
        Inl e \<Rightarrow> Inl e
      | Inr u \<Rightarrow>
          if snd (dsl_errors spec) \<noteq> []
          then Inl (ValueError (''Invalid DSL specification: '' @ join '', '' (snd (dsl_errors spec))))
          else (case perform_security_checks spec of
                  Inl e \<Rightarrow> Inl e
                | Inr False \<Rightarrow> Inl (ValueError ''DSL specification failed security checks'')
                | Inr True \<Rightarrow> Inr ()))"

section \<open>The Django generator: \<open>generate\<close> and \<open>preview\<close>\<close>

type_synonym file_map = "(string \<times> string) list"

text \<open>The assignments \<open>files[path] = ...\<close> of \<open>generate\<close>, in their order.\<close>

definition django_emitters :: "(string \<times> (pyval \<Rightarrow> py_error + string)) list" where
  "django_emitters = [
     (''manage.py'', generate_manage_py),
     (''app/models.py'', generate_models_complete),
     (''app/views.py'', generate_views_complete),
     (''app/urls.py'', generate_urls_complete),
     (''app/serializers.py'', generate_serializers_complete),
     (''app/admin.py'', generate_admin_complete),
     (''app/tests.py'', generate_tests),
     (''app/__init__.py'', \<lambda>dsl_spec. Inr ''''),
     (''app/apps.py'', generate_apps_py),
     (''project/settings.py'', generate_settings_complete),
     (''project/urls.py'', generate_project_urls),
     (''project/wsgi.py'', generate_wsgi),
     (''project/asgi.py'', generate_asgi),
     (''project/__init__.py'', \<lambda>dsl_spec. Inr ''''),
     (''requirements.txt'', generate_requirements_complete),
     (''Dockerfile'', generate_dockerfile_complete),
     (''docker-compose.yml'', generate_docker_compose),
     (''.env.example'', generate_env_example),
     (''.gitignore'', \<lambda>dsl_spec. Inr generate_gitignore),
     (''README.md'', generate_readme),
     (''pytest.ini'', \<lambda>dsl_spec. Inr generate_pytest_ini),
     (''.dockerignore'', \<lambda>dsl_spec. Inr generate_dockerignore)]"

fun emit_all ::
  "(string \<times> (pyval \<Rightarrow> py_error + string)) list \<Rightarrow> pyval \<Rightarrow> file_map \<Rightarrow> py_error + file_map" where
  "emit_all [] dsl_spec files = Inr files"
| "emit_all ((path, emit) # rest) dsl_spec files =
     bnd (emit dsl_spec) (\<lambda>content. emit_all rest dsl_spec (dict_set files path content))"

text \<open>
  \<open>files['integrity.json'] = json.dumps({filename: self.compute_hash(content) for ... if
  filename != 'integrity.json'}, indent=2)\<close>
\<close>

definition integrity_manifest :: "(8 word list \<Rightarrow> string) \<Rightarrow> file_map \<Rightarrow> pyval" where
  "integrity_manifest sha256_hexdigest files =
     PDict (map (\<lambda>fc. (fst fc, PStr (compute_hash sha256_hexdigest (snd fc))))
              (filter (\<lambda>fc. fst fc \<noteq> ''integrity.json'') files))"

definition add_integrity :: "(8 word list \<Rightarrow> string) \<Rightarrow> file_map \<Rightarrow> file_map" where
  "add_integrity sha256_hexdigest files =
     dict_set files ''integrity.json''
       (json_dumps_indent 0 (integrity_manifest sha256_hexdigest files))"

definition django_generate ::
  "(8 word list \<Rightarrow> string) \<Rightarrow> gen_state \<Rightarrow> pyval \<Rightarrow> (py_error + file_map) \<times> gen_state" where
  "django_generate sha256_hexdigest g dsl_spec =
     (case gate g dsl_spec of
        (Inl e, g') \<Rightarrow> (Inl e, g')
      | (Inr u, g') \<Rightarrow>
          (case emit_all django_emitters dsl_spec [] of
             Inl e \<Rightarrow> (Inl e, g')
           | Inr files \<Rightarrow> (Inr (add_integrity sha256_hexdigest files), g')))"




section \<open>The previews of the Go Fiber and Rails generators\<close>




text \<open>The registry of the server: one generator per framework identifier.\<close>

datatype framework = Django | GoFiber | Rails

definition framework_of :: "string \<Rightarrow> framework option" where
  "framework_of name =
     (if name = ''django'' then Some Django
      else if name = ''go-fiber'' then Some GoFiber
      else if name = ''rails'' then Some Rails
      else None)"


section \<open>Documents used in the examples\<close>

text \<open>
  Scenario B of the specification with a \<open>meta\<close> section, the same document after
  normalization, and a generator object as its constructor leaves it.
\<close>

definition task_spec :: pyval where
  "task_spec = PDict [
      (''meta'', PDict [(''name'', PStr ''shop''), (''version'', PStr ''1.0''),
                        (''framework'', PStr ''django'')]),
      (''models'', PDict [(''Task'', PDict [(''fields'', PDict [
          (''title'', PDict [(''type'', PStr ''string''), (''required'', PBool True)])])])])]"


definition initial_state :: gen_state where
  "initial_state = \<lparr>validation_errors = [], security_checks_passed = False\<rparr>"

definition is_ok :: "py_error + 'a \<Rightarrow> bool" where
  "is_ok r = (case r of Inl e \<Rightarrow> False | Inr x \<Rightarrow> True)"

section \<open>Primary-key flags and the Django output\<close>






section \<open>Validation: what the loops compute\<close>

lemma validate_fields_result:
  "validate_fields mn fs errs pk = Inr (errs', pk') \<Longrightarrow>
     errs' = errs @ concat (map (field_msgs mn) fs) \<and> pk' = pk + length (filter counted_pk fs)"
proof (induction fs arbitrary: errs pk)
  case Nil
  then show ?case by simp
next
  case (Cons p fs)
  obtain fn fd where p: "p = (fn, fd)" by (cases p)
  show ?case
  proof (cases "py_contains ''type'' fd")
    case (Inl e)
    with Cons.prems p show ?thesis by simp
  next
    case (Inr b)
    show ?thesis
    proof (cases b)
      case False
      with Inr Cons.prems p have "validate_fields mn fs (errs @ [FieldNoType fn mn]) pk = Inr (errs', pk')"
        by simp
      from Cons.IH[OF this] Inr False p show ?thesis
        by (simp add: field_msgs_def counted_pk_def has_type_def)
    next
      case True
      with Inr Cons.prems p obtain ty flag where
        ty: "py_getitem fd ''type'' = Inr ty" and
        fl: "py_get fd ''primary_key'' (PBool False) = Inr flag" and
        rec: "validate_fields mn fs
               (if in_str_list ty field_types then errs else errs @ [InvalidFieldType ty fn mn])
               (if py_truthy flag then pk + 1 else pk) = Inr (errs', pk')"
        by (cases "py_getitem fd ''type''"; cases "py_get fd ''primary_key'' (PBool False)") auto
      from Cons.IH[OF rec] Inr True p ty fl show ?thesis
        by (simp add: field_msgs_def counted_pk_def has_type_def)
    qed
  qed
qed

lemma py_items_Inr: "py_items v = Inr kvs \<Longrightarrow> v = PDict kvs"
  by (cases v) auto

lemma bnd_Inr: "bnd m f = Inr y \<Longrightarrow> \<exists>x. m = Inr x \<and> f x = Inr y"
  by (cases m) auto

lemma validate_model_list_result:
  "validate_model_list ms errs warns = Inr (errs', warns') \<Longrightarrow>
     errs' = errs @ concat (map model_msgs ms) \<and> warns' = warns @ concat (map model_warns ms)"
proof (induction ms arbitrary: errs warns)
  case Nil
  then show ?case by simp
next
  case (Cons p ms)
  obtain mn md where p: "p = (mn, md)" by (cases p)
  define errs1 where "errs1 = (if match_model_name mn then errs else errs @ [BadModelName mn])"
  from Cons.prems p obtain b where b: "py_contains ''fields'' md = Inr b"
    by (cases "py_contains ''fields'' md") (auto simp: Let_def)
  show ?case
  proof (cases b)
    case False
    with b Cons.prems p have "validate_model_list ms (errs1 @ [ModelNoFields mn]) warns = Inr (errs', warns')"
      by (simp add: errs1_def)
    from Cons.IH[OF this] b False p show ?thesis
      by (simp add: model_msgs_def model_warns_def errs1_def)
  next
    case True
    with b Cons.prems p have
      "bnd (py_getitem md ''fields'') (\<lambda>fields.
          bnd (py_items fields) (\<lambda>items.
          bnd (validate_fields mn items errs1 0) (\<lambda>(errs2, pk).
            if pk = 0 then
              validate_model_list ms errs2 (warns @ [NoPrimaryKey mn])
            else if pk > 1 then
              validate_model_list ms (errs2 @ [MultiplePrimaryKeys mn]) warns
            else validate_model_list ms errs2 warns))) = Inr (errs', warns')"
      by (simp add: errs1_def)
    then obtain fields items errs2 pk where
      f: "py_getitem md ''fields'' = Inr fields" and
      i: "py_items fields = Inr items" and
      vf: "validate_fields mn items errs1 0 = Inr (errs2, pk)" and
      rest: "(if pk = 0 then
              validate_model_list ms errs2 (warns @ [NoPrimaryKey mn])
            else if pk > 1 then
              validate_model_list ms (errs2 @ [MultiplePrimaryKeys mn]) warns
            else validate_model_list ms errs2 warns) = Inr (errs', warns')"
      by (auto dest!: bnd_Inr)
    from i have fd: "fields = PDict items" by (rule py_items_Inr)
    from validate_fields_result[OF vf] have
      e2: "errs2 = errs1 @ concat (map (field_msgs mn) items)" and
      pk: "pk = length (filter counted_pk items)" by auto
    consider "pk = 0" | "pk > 1" | "pk = 1" by arith
    then show ?thesis
    proof cases
      case 1
      with rest have "validate_model_list ms errs2 (warns @ [NoPrimaryKey mn]) = Inr (errs', warns')"
        by simp
      from Cons.IH[OF this] 1 b True p f fd e2 pk show ?thesis
        by (simp add: model_msgs_def model_warns_def errs1_def)
    next
      case 2
      with rest have "validate_model_list ms (errs2 @ [MultiplePrimaryKeys mn]) warns = Inr (errs', warns')"
        by simp
      from Cons.IH[OF this] 2 b True p f fd e2 pk show ?thesis
        by (auto simp add: model_msgs_def model_warns_def errs1_def)
    next
      case 3
      with rest have "validate_model_list ms errs2 warns = Inr (errs', warns')"
        by simp
      from Cons.IH[OF this] 3 b True p f fd e2 pk show ?thesis
        by (auto simp add: model_msgs_def model_warns_def errs1_def)
    qed
  qed
qed

lemma meta_required_result:
  "meta_required fs meta errs = Inr errs' \<Longrightarrow>
     errs' = errs @ map MissingMetaField (filter (\<lambda>f. py_contains f meta \<noteq> Inr True) fs)"
proof (induction fs arbitrary: errs)
  case Nil
  then show ?case by simp
next
  case (Cons f fs)
  from Cons.prems obtain b where b: "py_contains f meta = Inr b"
    and r: "meta_required fs meta (if b then errs else errs @ [MissingMetaField f]) = Inr errs'"
    by (auto dest!: bnd_Inr)
  from Cons.IH[OF r] b show ?case by (cases b) auto
qed

lemma check_required_result:
  "check_required ss spec errs = Inr errs' \<Longrightarrow>
     errs' = errs @ map MissingSection (filter (\<lambda>s. py_contains s spec \<noteq> Inr True) ss)"
proof (induction ss arbitrary: errs)
  case Nil
  then show ?case by simp
next
  case (Cons s ss)
  from Cons.prems obtain b where b: "py_contains s spec = Inr b"
    and r: "check_required ss spec (if b then errs else errs @ [MissingSection s]) = Inr errs'"
    by (auto dest!: bnd_Inr)
  from Cons.IH[OF r] b show ?case by (cases b) auto
qed

lemma validate_endpoints_result:
  "validate_endpoints eps errs = Inr errs' \<Longrightarrow> errs' = errs @ concat (map endpoint_msgs eps)"
proof (induction eps arbitrary: errs)
  case Nil
  then show ?case by simp
next
  case (Cons ep eps)
  from Cons.prems obtain b1 b2 where b: "py_contains ''path'' ep = Inr b1" "py_contains ''method'' ep = Inr b2"
    and r: "validate_endpoints eps (errs @ (if b1 then [] else [EndpointNoPath])
               @ (if b2 then [] else [EndpointNoMethod])) = Inr errs'"
    by (auto dest!: bnd_Inr)
  from Cons.IH[OF r] b show ?case by (cases b1; cases b2) (auto simp: endpoint_msgs_def)
qed

lemma validate_parts:
  assumes "validate spec = Inr r"
  shows "\<exists>e0 em emod wmod ea eapi.
      check_required required_sections spec [] = Inr e0 \<and>
      section_errors ''meta'' validate_meta spec = Inr em \<and>
      (\<exists>b. py_contains ''models'' spec = Inr b \<and>
         (if b then bnd (py_getitem spec ''models'') validate_models else Inr ([], [])) = Inr (emod, wmod)) \<and>
      section_errors ''auth'' validate_auth spec = Inr ea \<and>
      section_errors ''api'' validate_api spec = Inr eapi \<and>
      errors r = e0 @ em @ emod @ ea @ eapi \<and> warnings r = wmod \<and>
      valid r = (errors r = [])"
proof -
  from assms obtain e0 where e0: "check_required required_sections spec [] = Inr e0"
    by (auto simp: validate_def dest!: bnd_Inr)
  from assms e0 obtain em where em: "section_errors ''meta'' validate_meta spec = Inr em"
    by (auto simp: validate_def dest!: bnd_Inr)
  from assms e0 em obtain b where b: "py_contains ''models'' spec = Inr b"
    by (auto simp: validate_def dest!: bnd_Inr)
  from assms e0 em b obtain emod wmod where
    m: "(if b then bnd (py_getitem spec ''models'') validate_models else Inr ([], [])) = Inr (emod, wmod)"
    by (simp add: validate_def) (auto dest!: bnd_Inr)
  from assms e0 em b m obtain ea where ea: "section_errors ''auth'' validate_auth spec = Inr ea"
    by (simp add: validate_def) (auto dest!: bnd_Inr)
  from assms e0 em b m ea obtain eapi where eapi: "section_errors ''api'' validate_api spec = Inr eapi"
    by (simp add: validate_def) (auto dest!: bnd_Inr)
  from assms e0 em b m ea eapi have "r = \<lparr>valid = (length (e0 @ em @ emod @ ea @ eapi) = 0),
       errors = e0 @ em @ emod @ ea @ eapi, warnings = wmod\<rparr>"
    by (simp add: validate_def Let_def)
  then have "errors r = e0 @ em @ emod @ ea @ eapi \<and> warnings r = wmod \<and> valid r = (errors r = [])"
    by simp
  with e0 em b m ea eapi show ?thesis by blast
qed


lemma key_present: "map_of kvs k = Some v \<Longrightarrow> k \<in> set (map fst kvs)"
  by (auto dest: map_of_SomeD intro: rev_image_eqI)

lemma map_of_None_iff: "(k \<in> set (map fst kvs)) = (map_of kvs k \<noteq> None)"
  by (simp add: map_of_eq_None_iff)



lemma in_keys_iff: "(k \<in> fst ` set kvs) = (map_of kvs k \<noteq> None)"
  by (simp add: map_of_eq_None_iff)






lemma validate_auth_dict: "\<exists>e. validate_auth (PDict kvs) = Inr e"
  by (simp add: validate_auth_def)


section \<open>Claims about \<open>validate\<close>\<close>











lemma field_msgs_in_model:
  assumes "py_getitem md ''fields'' = Inr (PDict fs)" and "(fn, fd) \<in> set fs"
  shows "set (field_msgs mn (fn, fd)) \<subseteq> set (model_msgs (mn, md))"
proof -
  from assms(1) obtain kvs where md: "md = PDict kvs" and look: "map_of kvs ''fields'' = Some (PDict fs)"
    by (cases md) (auto split: option.splits)
  from look have "''fields'' \<in> set (map fst kvs)" by (rule key_present)
  with md look assms(2) show ?thesis
    by (auto simp: model_msgs_def)
qed


lemma py_getitem_Inr:
  "py_getitem v k = Inr x \<Longrightarrow> \<exists>kvs. v = PDict kvs \<and> map_of kvs k = Some x"
  by (cases v) (auto split: option.splits)

lemma py_getitem_contains: "py_getitem v k = Inr x \<Longrightarrow> py_contains k v = Inr True"
  by (auto dest!: py_getitem_Inr simp: in_keys_iff)

lemma section_errors_present:
  "section_errors name check spec = Inr e \<Longrightarrow> py_getitem spec name = Inr v \<Longrightarrow> check v = Inr e"
  by (auto simp: section_errors_def dest!: py_getitem_Inr simp: in_keys_iff)

lemma meta_required_complete:
  "meta_required fs meta errs = Inr errs' \<Longrightarrow> f \<in> set fs \<Longrightarrow>
     py_contains f meta = Inr False \<Longrightarrow> MissingMetaField f \<in> set errs'"
  by (auto dest!: meta_required_result)

lemma validate_meta_complete:
  assumes "validate_meta meta = Inr e"
  shows "f \<in> set [''name'', ''version'', ''framework''] \<Longrightarrow> py_contains f meta = Inr False \<Longrightarrow>
           MissingMetaField f \<in> set e"
    and "py_getitem meta ''framework'' = Inr fw \<Longrightarrow> \<not> in_str_list fw supported_frameworks \<Longrightarrow>
           UnsupportedFramework fw \<in> set e"
    and "py_getitem meta ''name'' = Inr nm \<Longrightarrow> match_project_name nm = Inr False \<Longrightarrow>
           BadProjectName \<in> set e"
proof -
  from assms obtain e1 b1 e2 b2 where
    e1: "meta_required [''name'', ''version'', ''framework''] meta [] = Inr e1" and
    b1: "py_contains ''framework'' meta = Inr b1" and
    e2: "(if b1 then bnd (py_getitem meta ''framework'') (\<lambda>fw.
              Inr (if in_str_list fw supported_frameworks then e1
                   else e1 @ [UnsupportedFramework fw])) else Inr e1) = Inr e2" and
    b2: "py_contains ''name'' meta = Inr b2" and
    e3: "(if b2 then bnd (py_getitem meta ''name'') (\<lambda>nm.
         bnd (match_project_name nm) (\<lambda>ok.
           Inr (if ok then e2 else e2 @ [BadProjectName]))) else Inr e2) = Inr e"
    unfolding validate_meta_def by (auto dest!: bnd_Inr)
  have s12: "set e1 \<subseteq> set e2" using e2 by (auto dest!: bnd_Inr split: if_splits)
  have s23: "set e2 \<subseteq> set e" using e3 by (auto dest!: bnd_Inr split: if_splits)
  show "f \<in> set [''name'', ''version'', ''framework''] \<Longrightarrow> py_contains f meta = Inr False \<Longrightarrow>
           MissingMetaField f \<in> set e"
    using meta_required_complete[OF e1] s12 s23 by blast
  show "UnsupportedFramework fw \<in> set e"
    if g: "py_getitem meta ''framework'' = Inr fw" and n: "\<not> in_str_list fw supported_frameworks"
  proof -
    from py_getitem_contains[OF g] b1 have "b1" by simp
    with e2 g n have "e2 = e1 @ [UnsupportedFramework fw]" by simp
    with s23 show ?thesis by auto
  qed
  show "BadProjectName \<in> set e"
    if g: "py_getitem meta ''name'' = Inr nm" and n: "match_project_name nm = Inr False"
  proof -
    from py_getitem_contains[OF g] b2 have "b2" by simp
    with e3 g n have "e = e2 @ [BadProjectName]" by simp
    then show ?thesis by simp
  qed
qed

lemma validate_auth_complete:
  assumes "validate_auth auth = Inr e" and "py_getitem auth ''provider'' = Inr p"
    and "\<not> in_str_list p supported_providers"
  shows "UnsupportedProvider p \<in> set e"
proof -
  from assms(2) obtain kvs where "auth = PDict kvs" "map_of kvs ''provider'' = Some p"
    by (auto dest!: py_getitem_Inr)
  with assms(1,3) show ?thesis by (auto simp: validate_auth_def)
qed

lemma validate_api_complete:
  assumes "validate_api api = Inr e" and "py_getitem api ''endpoints'' = Inr eps"
    and "py_iter eps = Inr xs" and "ep \<in> set xs"
  shows "py_contains ''path'' ep = Inr False \<Longrightarrow> EndpointNoPath \<in> set e"
    and "py_contains ''method'' ep = Inr False \<Longrightarrow> EndpointNoMethod \<in> set e"
proof -
  from assms(2) have "py_contains ''endpoints'' api = Inr True" by (rule py_getitem_contains)
  with assms(1,2,3) have "validate_endpoints xs [] = Inr e"
    by (simp add: validate_api_def)
  from validate_endpoints_result[OF this] have e: "e = concat (map endpoint_msgs xs)" by simp
  show "py_contains ''path'' ep = Inr False \<Longrightarrow> EndpointNoPath \<in> set e"
    using e assms(4) by (auto simp: endpoint_msgs_def intro!: bexI[of _ ep])
  show "py_contains ''method'' ep = Inr False \<Longrightarrow> EndpointNoMethod \<in> set e"
    using e assms(4) by (auto simp: endpoint_msgs_def intro!: bexI[of _ ep])
qed

lemma model_msgs_complete:
  shows "\<not> match_model_name mn \<Longrightarrow> BadModelName mn \<in> set (model_msgs (mn, md))"
    and "py_contains ''fields'' md = Inr False \<Longrightarrow> ModelNoFields mn \<in> set (model_msgs (mn, md))"
    and "py_getitem md ''fields'' = Inr (PDict fs) \<Longrightarrow> 1 < length (filter counted_pk fs) \<Longrightarrow>
           MultiplePrimaryKeys mn \<in> set (model_msgs (mn, md))"
  by (auto simp: model_msgs_def dest: py_getitem_contains)

lemma field_msgs_complete:
  shows "py_contains ''type'' fd = Inr False \<Longrightarrow> FieldNoType fn mn \<in> set (field_msgs mn (fn, fd))"
    and "py_getitem fd ''type'' = Inr ty \<Longrightarrow> \<not> in_str_list ty field_types \<Longrightarrow>
           InvalidFieldType ty fn mn \<in> set (field_msgs mn (fn, fd))"
  by (auto simp: field_msgs_def has_type_def dest: py_getitem_contains)

text \<open>
  Claim C6, as amended. Whenever \<open>validate\<close> returns, every violated rule has its message
  in the one result and \<open>valid\<close> is false, where the primary keys of a model are counted
  over the fields that declare a \<open>type\<close> (\<open>counted_pk\<close>): a field without one is
  reported and skipped.
\<close>

theorem validate_reports_every_violation:
  assumes v: "validate spec = Inr r" and viol: "violates counted_pk spec m"
  shows "m \<in> set (errors r) \<and> \<not> valid r"
proof -
  from validate_parts[OF v] obtain e0 em emod wmod ea eapi b where
    e0: "check_required required_sections spec [] = Inr e0" and
    em: "section_errors ''meta'' validate_meta spec = Inr em" and
    b: "py_contains ''models'' spec = Inr b" and
    mo: "(if b then bnd (py_getitem spec ''models'') validate_models else Inr ([], [])) = Inr (emod, wmod)" and
    ea: "section_errors ''auth'' validate_auth spec = Inr ea" and
    eapi: "section_errors ''api'' validate_api spec = Inr eapi" and
    er: "errors r = e0 @ em @ emod @ ea @ eapi" and va: "valid r = (errors r = [])"
    by blast
  have models: "emod = concat (map model_msgs ms)" if "py_getitem spec ''models'' = Inr (PDict ms)" for ms
  proof -
    from that b have "b" by (auto dest!: py_getitem_contains)
    with mo that have "validate_model_list ms [] [] = Inr (emod, wmod)"
      by (simp add: validate_models_def)
    from validate_model_list_result[OF this] show ?thesis by simp
  qed
  have inmod: "x \<in> set emod"
    if "py_getitem spec ''models'' = Inr (PDict ms)" "(mn, md) \<in> set ms" "x \<in> set (model_msgs (mn, md))"
    for ms mn md x
    using models[OF that(1)] that(2,3) by auto
  from viol have "m \<in> set (errors r)"
  proof cases
    case (v_section s)
    with check_required_result[OF e0] er show ?thesis by auto
  next
    case (v_meta_field meta f)
    from section_errors_present[OF em v_meta_field(2)] have "validate_meta meta = Inr em" .
    from validate_meta_complete(1)[OF this v_meta_field(3,4)] v_meta_field(1) er show ?thesis by simp
  next
    case (v_framework meta fw)
    from section_errors_present[OF em v_framework(2)] have "validate_meta meta = Inr em" .
    from validate_meta_complete(2)[OF this v_framework(3,4)] v_framework(1) er show ?thesis by simp
  next
    case (v_name meta nm)
    from section_errors_present[OF em v_name(2)] have "validate_meta meta = Inr em" .
    from validate_meta_complete(3)[OF this v_name(3,4)] v_name(1) er show ?thesis by simp
  next
    case (v_model_name ms mn md)
    from inmod[OF v_model_name(2,3) model_msgs_complete(1)[OF v_model_name(4)]] v_model_name(1) er
    show ?thesis by simp
  next
    case (v_no_fields ms mn md)
    from inmod[OF v_no_fields(2,3) model_msgs_complete(2)[OF v_no_fields(4)]] v_no_fields(1) er
    show ?thesis by simp
  next
    case (v_no_type ms mn md fs fn fd)
    have "FieldNoType fn mn \<in> set (model_msgs (mn, md))"
      using field_msgs_in_model[OF v_no_type(4,5)] field_msgs_complete(1)[OF v_no_type(6)] by auto
    from inmod[OF v_no_type(2,3) this] v_no_type(1) er show ?thesis by simp
  next
    case (v_bad_type ms mn md fs fn fd ty)
    have "InvalidFieldType ty fn mn \<in> set (model_msgs (mn, md))"
      using field_msgs_in_model[OF v_bad_type(4,5)] field_msgs_complete(2)[OF v_bad_type(6,7)] by auto
    from inmod[OF v_bad_type(2,3) this] v_bad_type(1) er show ?thesis by simp
  next
    case (v_multi_pk ms mn md fs)
    from inmod[OF v_multi_pk(2,3) model_msgs_complete(3)[OF v_multi_pk(4,5)]] v_multi_pk(1) er
    show ?thesis by simp
  next
    case (v_provider auth p)
    from section_errors_present[OF ea v_provider(2)] have "validate_auth auth = Inr ea" .
    from validate_auth_complete[OF this v_provider(3,4)] v_provider(1) er show ?thesis by simp
  next
    case (v_path api eps xs ep)
    from section_errors_present[OF eapi v_path(2)] have "validate_api api = Inr eapi" .
    from validate_api_complete(1)[OF this v_path(3,4,5,6)] v_path(1) er show ?thesis by simp
  next
    case (v_method api eps xs ep)
    from section_errors_present[OF eapi v_method(2)] have "validate_api api = Inr eapi" .
    from validate_api_complete(2)[OF this v_method(3,4,5,6)] v_method(1) er show ?thesis by simp
  qed
  with va show ?thesis by auto
qed



text \<open>
  Claim C6 as stated fails: two fields are flagged \<open>primary_key\<close>, one of them has no
  \<open>type\<close>; both rules are violated and only the missing type is reported.
\<close>

theorem validate_multiple_pk_counterexample:
  "violates declares_primary_key (PDict [
      (''meta'', PDict [(''name'', PStr ''shop''), (''version'', PStr ''1.0''),
                        (''framework'', PStr ''django'')]),
      (''models'', PDict [(''User'', PDict [(''fields'', PDict [
          (''a'', PDict [(''primary_key'', PBool True)]),
          (''b'', PDict [(''type'', PStr ''uuid''), (''primary_key'', PBool True)])])])])])
     (MultiplePrimaryKeys ''User'')
   \<and> validate (PDict [
      (''meta'', PDict [(''name'', PStr ''shop''), (''version'', PStr ''1.0''),
                        (''framework'', PStr ''django'')]),
      (''models'', PDict [(''User'', PDict [(''fields'', PDict [
          (''a'', PDict [(''primary_key'', PBool True)]),
          (''b'', PDict [(''type'', PStr ''uuid''), (''primary_key'', PBool True)])])])])])
     = Inr \<lparr>valid = False, errors = [FieldNoType ''a'' ''User''], warnings = []\<rparr>"
proof
  show "violates declares_primary_key (PDict [
      (''meta'', PDict [(''name'', PStr ''shop''), (''version'', PStr ''1.0''),
                        (''framework'', PStr ''django'')]),
      (''models'', PDict [(''User'', PDict [(''fields'', PDict [
          (''a'', PDict [(''primary_key'', PBool True)]),
          (''b'', PDict [(''type'', PStr ''uuid''), (''primary_key'', PBool True)])])])])])
     (MultiplePrimaryKeys ''User'')"
    by (rule v_multi_pk[where ms = "[(''User'', PDict [(''fields'', PDict [
          (''a'', PDict [(''primary_key'', PBool True)]),
          (''b'', PDict [(''type'', PStr ''uuid''), (''primary_key'', PBool True)])])])]"
        and md = "PDict [(''fields'', PDict [
          (''a'', PDict [(''primary_key'', PBool True)]),
          (''b'', PDict [(''type'', PStr ''uuid''), (''primary_key'', PBool True)])])]"
        and fs = "[(''a'', PDict [(''primary_key'', PBool True)]),
          (''b'', PDict [(''type'', PStr ''uuid''), (''primary_key'', PBool True)])]"])
       (simp_all add: declares_primary_key_def)
  show "validate (PDict [
      (''meta'', PDict [(''name'', PStr ''shop''), (''version'', PStr ''1.0''),
                        (''framework'', PStr ''django'')]),
      (''models'', PDict [(''User'', PDict [(''fields'', PDict [
          (''a'', PDict [(''primary_key'', PBool True)]),
          (''b'', PDict [(''type'', PStr ''uuid''), (''primary_key'', PBool True)])])])])])
     = Inr \<lparr>valid = False, errors = [FieldNoType ''a'' ''User''], warnings = []\<rparr>"
    by code_simp
qed

text \<open>
  The amended claim C6 at a document with a malformed project name and a model with two
  primary keys: both messages are in the one result.
\<close>

theorem validate_reports_every_violation_witness:
  "validate (PDict [
      (''meta'', PDict [(''name'', PStr ''Invalid Name!''), (''version'', PStr ''1.0''),
                        (''framework'', PStr ''django'')]),
      (''models'', PDict [(''User'', PDict [(''fields'', PDict [
          (''a'', PDict [(''type'', PStr ''uuid''), (''primary_key'', PBool True)]),
          (''b'', PDict [(''type'', PStr ''uuid''), (''primary_key'', PBool True)])])])])])
     = Inr \<lparr>valid = False, errors = [BadProjectName, MultiplePrimaryKeys ''User''], warnings = []\<rparr>
   \<and> violates counted_pk (PDict [
      (''meta'', PDict [(''name'', PStr ''Invalid Name!''), (''version'', PStr ''1.0''),
                        (''framework'', PStr ''django'')]),
      (''models'', PDict [(''User'', PDict [(''fields'', PDict [
          (''a'', PDict [(''type'', PStr ''uuid''), (''primary_key'', PBool True)]),
          (''b'', PDict [(''type'', PStr ''uuid''), (''primary_key'', PBool True)])])])])])
     (MultiplePrimaryKeys ''User'')
   \<and> MultiplePrimaryKeys ''User'' \<in> set (errors
        \<lparr>valid = False, errors = [BadProjectName, MultiplePrimaryKeys ''User''], warnings = []\<rparr>)
   \<and> \<not> valid \<lparr>valid = False, errors = [BadProjectName, MultiplePrimaryKeys ''User''], warnings = []\<rparr>"
proof -
  let ?fs = "[(''a'', PDict [(''type'', PStr ''uuid''), (''primary_key'', PBool True)]),
          (''b'', PDict [(''type'', PStr ''uuid''), (''primary_key'', PBool True)])]"
  let ?md = "PDict [(''fields'', PDict ?fs)]"
  let ?ms = "[(''User'', ?md)]"
  let ?spec = "PDict [
      (''meta'', PDict [(''name'', PStr ''Invalid Name!''), (''version'', PStr ''1.0''),
                        (''framework'', PStr ''django'')]),
      (''models'', PDict ?ms)]"
  have v: "validate ?spec
     = Inr \<lparr>valid = False, errors = [BadProjectName, MultiplePrimaryKeys ''User''], warnings = []\<rparr>"
    by code_simp
  have w: "violates counted_pk ?spec (MultiplePrimaryKeys ''User'')"
    by (rule v_multi_pk[where ms = ?ms and md = ?md and fs = ?fs])
       (simp_all add: counted_pk_def has_type_def)
  from validate_reports_every_violation[OF v w] v w show ?thesis by simp
qed


section \<open>Normalization\<close>




lemma dict_set_absent: "k \<notin> set (map fst kvs) \<Longrightarrow> dict_set kvs k v = kvs @ [(k, v)]"
  by (induction kvs) auto







text \<open>
  Claim C4 fails on the code. The caller's document is the dict at address 0; the call returns
  the new dict at address 6, and the \<open>fields\<close> dict of \<open>Task\<close> at address 4, which both
  share, has received the key \<open>id\<close>: the caller's document read before the call and after it
  differ.
\<close>

theorem normalize_mutates_caller_input:
  "h_normalize_spec
     [HDict [(''meta'', HRef 1), (''models'', HRef 2)],
      HDict [(''name'', HStr ''shop'')],
      HDict [(''Task'', HRef 3)],
      HDict [(''fields'', HRef 4)],
      HDict [(''title'', HRef 5)],
      HDict [(''type'', HStr ''string''), (''required'', HBool True)]] (HRef 0)
   = (Inr (HRef 6),
     [HDict [(''meta'', HRef 1), (''models'', HRef 2)],
      HDict [(''name'', HStr ''shop'')],
      HDict [(''Task'', HRef 3)],
      HDict [(''fields'', HRef 4)],
      HDict [(''title'', HRef 5), (''id'', HRef 8)],
      HDict [(''type'', HStr ''string''), (''required'', HBool True)],
      HDict [(''meta'', HRef 1), (''models'', HRef 2)],
      HDict [],
      HDict [(''type'', HStr ''uuid''), (''primary_key'', HBool True),
             (''auto_generated'', HBool True)]])
   \<and> deref 5
     [HDict [(''meta'', HRef 1), (''models'', HRef 2)],
      HDict [(''name'', HStr ''shop'')],
      HDict [(''Task'', HRef 3)],
      HDict [(''fields'', HRef 4)],
      HDict [(''title'', HRef 5)],
      HDict [(''type'', HStr ''string''), (''required'', HBool True)]] (HRef 0)
   = Some (PDict [
      (''meta'', PDict [(''name'', PStr ''shop'')]),
      (''models'', PDict [(''Task'', PDict [(''fields'', PDict [
          (''title'', PDict [(''type'', PStr ''string''), (''required'', PBool True)])])])])])
   \<and> deref 5
     [HDict [(''meta'', HRef 1), (''models'', HRef 2)],
      HDict [(''name'', HStr ''shop'')],
      HDict [(''Task'', HRef 3)],
      HDict [(''fields'', HRef 4)],
      HDict [(''title'', HRef 5), (''id'', HRef 8)],
      HDict [(''type'', HStr ''string''), (''required'', HBool True)],
      HDict [(''meta'', HRef 1), (''models'', HRef 2)],
      HDict [],
      HDict [(''type'', HStr ''uuid''), (''primary_key'', HBool True),
             (''auto_generated'', HBool True)]] (HRef 0)
   = Some (PDict [
      (''meta'', PDict [(''name'', PStr ''shop'')]),
      (''models'', PDict [(''Task'', PDict [(''fields'', PDict [
          (''title'', PDict [(''type'', PStr ''string''), (''required'', PBool True)]),
          (''id'', PDict [(''type'', PStr ''uuid''), (''primary_key'', PBool True),
                          (''auto_generated'', PBool True)])])])])])"
  by code_simp

section \<open>Claims about the security gate\<close>











section \<open>Claims about the generators\<close>

lemma validate_dsl_state:
  "validate_dsl g spec = (r, g') \<Longrightarrow>
     g' = g\<lparr>validation_errors := snd (dsl_errors spec)\<rparr> \<and>
     r = (case fst (dsl_errors spec) of Inl e \<Rightarrow> Inl e
          | Inr u \<Rightarrow> Inr (snd (dsl_errors spec) = []))"
  by (auto simp: validate_dsl_def split: prod.splits sum.splits)

lemma gate_eq:
  "gate g spec =
     (gate_result spec,
      g\<lparr>validation_errors := snd (dsl_errors spec),
        security_checks_passed := (gate_result spec = Inr () \<or> security_checks_passed g)\<rparr>)"
  by (cases "dsl_errors spec"; cases "fst (dsl_errors spec)"; cases "perform_security_checks spec")
     (auto simp: gate_def gate_result_def validate_dsl_def perform_security_checks_st_def
           split: sum.splits bool.splits)

lemma django_generate_eq:
  "django_generate H g spec =
     ((case gate_result spec of Inl e \<Rightarrow> Inl e
       | Inr u \<Rightarrow> (case emit_all django_emitters spec [] of Inl e \<Rightarrow> Inl e
                    | Inr files \<Rightarrow> Inr (add_integrity H files))),
      g\<lparr>validation_errors := snd (dsl_errors spec),
        security_checks_passed := (gate_result spec = Inr () \<or> security_checks_passed g)\<rparr>)"
  by (simp add: django_generate_def gate_eq split: sum.splits)






lemma emit_all_result:
  "emit_all ems spec files = Inr out \<Longrightarrow> distinct (map fst ems) \<Longrightarrow>
     set (map fst ems) \<inter> set (map fst files) = {} \<Longrightarrow>
     \<exists>body. out = files @ body \<and> map fst body = map fst ems \<and>
            list_all2 (\<lambda>pe fc. snd pe spec = Inr (snd fc)) ems body"
proof (induction ems arbitrary: files)
  case Nil
  then show ?case by simp
next
  case (Cons pe ems)
  obtain path emit where pe: "pe = (path, emit)" by (cases pe)
  from Cons.prems(1) pe obtain content where c: "emit spec = Inr content"
    and r: "emit_all ems spec (dict_set files path content) = Inr out"
    by (auto dest!: bnd_Inr)
  from Cons.prems(3) pe have "path \<notin> set (map fst files)" by auto
  then have ds: "dict_set files path content = files @ [(path, content)]" by (rule dict_set_absent)
  from Cons.prems(2,3) pe have d: "distinct (map fst ems)"
    and dj: "set (map fst ems) \<inter> set (map fst (files @ [(path, content)])) = {}" by auto
  from Cons.IH[OF r[unfolded ds] d dj] obtain body where
    "out = (files @ [(path, content)]) @ body" "map fst body = map fst ems"
    "list_all2 (\<lambda>pe fc. snd pe spec = Inr (snd fc)) ems body" by blast
  with pe c show ?case
    by (intro exI[of _ "(path, content) # body"]) simp
qed

lemma django_paths:
  "distinct (map fst django_emitters) \<and> ''integrity.json'' \<notin> set (map fst django_emitters)"
  by (simp add: django_emitters_def)

lemma filter_no_integrity:
  "''integrity.json'' \<notin> set (map fst files) \<Longrightarrow>
     filter (\<lambda>fc. fst fc \<noteq> ''integrity.json'') files = files"
  by (induction files) auto

text \<open>
  Claim C9. \<open>compute_hash\<close> is the SHA-256 hex digest, as \<open>hashlib\<close> computes it, of the
  UTF-8 bytes of its input, and the file map of the Django generator ends with the entry
  \<open>integrity.json\<close> whose content is the JSON object mapping the path of every other
  generated file, in order, to the digest of that file's content. The other files are the 22
  files of the generator.
\<close>

theorem django_integrity_manifest:
  assumes "django_generate H g spec = (Inr files, g')"
  shows "\<exists>body. files = body @ [(''integrity.json'',
             json_dumps_indent 0 (PDict (map (\<lambda>fc. (fst fc, PStr (compute_hash H (snd fc)))) body)))]
           \<and> map fst body = map fst django_emitters
           \<and> ''integrity.json'' \<notin> set (map fst body)
           \<and> list_all2 (\<lambda>pe fc. snd pe spec = Inr (snd fc)) django_emitters body
           \<and> (\<forall>content. compute_hash H content = H (utf8_encode content))"
proof -
  from assms obtain body where e: "emit_all django_emitters spec [] = Inr body"
    and f: "files = add_integrity H body"
    by (auto simp: django_generate_eq split: sum.splits)
  from emit_all_result[OF e] django_paths have
    keys: "map fst body = map fst django_emitters" and
    each: "list_all2 (\<lambda>pe fc. snd pe spec = Inr (snd fc)) django_emitters body"
    by auto
  from keys django_paths have no: "''integrity.json'' \<notin> set (map fst body)" by simp
  have ai: "add_integrity H body = body @ [(''integrity.json'',
             json_dumps_indent 0 (PDict (map (\<lambda>fc. (fst fc, PStr (compute_hash H (snd fc)))) body)))]"
    unfolding add_integrity_def integrity_manifest_def
      filter_no_integrity[OF no] dict_set_absent[OF no] ..
  have h: "\<forall>content. compute_hash H content = H (utf8_encode content)"
    by (simp add: compute_hash_def)
  from f ai have "files = body @ [(''integrity.json'',
             json_dumps_indent 0 (PDict (map (\<lambda>fc. (fst fc, PStr (compute_hash H (snd fc)))) body)))]"
    by (simp only:)
  with keys no each h show ?thesis by blast
qed

section \<open>Claims about the Django output and primary keys\<close>




























section \<open>The claims about the generators on concrete documents\<close>

lemma is_ok_Inr: "is_ok r \<Longrightarrow> \<exists>x. r = Inr x"
  by (cases r) (simp_all add: is_ok_def)

lemma task_spec_gate: "gate_result task_spec = Inr ()"
  by code_simp

lemma task_spec_files: "is_ok (emit_all django_emitters task_spec [])"
  by code_simp

lemma sample_generation:
  "\<exists>files g'. django_generate H initial_state task_spec = (Inr files, g')"
proof -
  from is_ok_Inr[OF task_spec_files] obtain files where
    "emit_all django_emitters task_spec [] = Inr files" by blast
  then show ?thesis by (simp add: django_generate_eq task_spec_gate)
qed



text \<open>Claim C9 at the document of scenario B, for every hash function.\<close>

theorem django_integrity_manifest_witness:
  "\<forall>H. \<exists>files g' body. django_generate H initial_state task_spec = (Inr files, g') \<and>
      files = body @ [(''integrity.json'',
             json_dumps_indent 0 (PDict (map (\<lambda>fc. (fst fc, PStr (compute_hash H (snd fc)))) body)))] \<and>
      map fst body = map fst django_emitters"
proof
  fix H
  from sample_generation obtain files g' where
    g: "django_generate H initial_state task_spec = (Inr files, g')" by blast
  from django_integrity_manifest[OF g] g
  show "\<exists>files g' body. django_generate H initial_state task_spec = (Inr files, g') \<and>
      files = body @ [(''integrity.json'',
             json_dumps_indent 0 (PDict (map (\<lambda>fc. (fst fc, PStr (compute_hash H (snd fc)))) body)))] \<and>
      map fst body = map fst django_emitters" by blast
qed



text \<open>
  The class emitted for the normalized model of scenario B: the fixed \<open>id\<close> column, then the
  user's \<open>title\<close>, then the injected field \<open>id\<close> as one more user field.
\<close>

lemma task_class_example:
  \<open>model_class ''Task'' (PDict [(''fields'', PDict [
          (''title'', PDict [(''type'', PStr ''string''), (''required'', PBool True)]),
          (''id'', PDict [(''type'', PStr ''uuid''), (''primary_key'', PBool True),
                          (''auto_generated'', PBool True)])])])
   = Inr (concat [
       ''class Task(models.Model):\<newline>'',
       ''    """Task model"""\<newline>'',
       ''    id = models.UUIDField(primary_key=True, default=uuid.uuid4, editable=False)\<newline>'',
       ''    title = models.CharField(max_length=255, blank=False)\<newline>'',
       ''    id = models.CharField(max_length=255, blank=True)\<newline>'',
       ''    created_at = models.DateTimeField(auto_now_add=True)\<newline>'',
       ''    updated_at = models.DateTimeField(auto_now=True)\<newline>'',
       ''\<newline>'',
       ''    class Meta:\<newline>'',
       ''        db_table = "tasks"\<newline>'',
       ''        ordering = ["-created_at"]\<newline>'',
       ''\<newline>'',
       ''    def __str__(self):\<newline>'',
       ''        return str(self.title)\<newline>'',
       ''\<newline>'',
       ''\<newline>''])\<close>
  by code_simp


end
